theory Spec2Isabelle
  imports Main "HOL-Library.Sublist" "HOL-Library.AList"
begin

unbundle bit_operations_syntax

section \<open>Python values, errors and string helpers\<close>

text \<open>
  The engine is a Python class whose methods talk to an attached debugger. A method of
  the model returns \<open>pyerr + 'a\<close>: \<open>Inl\<close> is the exception the Python raises,
  \<open>Inr\<close> the value it returns. Integers are Python's unbounded integers (\<open>int\<close>),
  strings are lists of characters.
\<close>

datatype pyerr = KeyError | IndexError | TypeError | NameError | AttributeError
  | UnboundLocalError

text \<open>A dynamically typed Python value, as far as the engine's tuples hold them.\<close>

datatype pyval = PNone | PInt int | PStr string

text \<open>\<open>sub in s\<close> on strings.\<close>

fun str_in :: "string \<Rightarrow> string \<Rightarrow> bool" where
  "str_in sub [] = (sub = [])"
| "str_in sub (c # cs) = (prefix sub (c # cs) \<or> str_in sub cs)"

text \<open>\<open>str.isspace\<close> for one character with a code point below 256.\<close>

definition is_space :: "char \<Rightarrow> bool" where
  "is_space c = (c \<in> set [CHR '' '', CHR 0x09, CHR 0x0A, CHR 0x0B, CHR 0x0C, CHR 0x0D,
                           CHR 0x1C, CHR 0x1D, CHR 0x1E, CHR 0x1F, CHR 0x85, CHR 0xA0])"

text \<open>\<open>s.split()\<close>: the maximal runs of characters that are not white space.\<close>

fun split_ws_go :: "string \<Rightarrow> string \<Rightarrow> string list" where
  "split_ws_go cur [] = (if cur = [] then [] else [cur])"
| "split_ws_go cur (c # cs) =
     (if is_space c then (if cur = [] then split_ws_go [] cs else cur # split_ws_go [] cs)
      else split_ws_go (cur @ [c]) cs)"

definition split_ws :: "string \<Rightarrow> string list" where
  "split_ws s = split_ws_go [] s"

text \<open>\<open>s.split(sep)\<close> for a separator that is not empty: scanned from the left,
  occurrences do not overlap.\<close>

function split_sep_go :: "string \<Rightarrow> string \<Rightarrow> string \<Rightarrow> string list" where
  "split_sep_go sep cur s =
     (if s = [] then [cur]
      else if sep \<noteq> [] \<and> prefix sep s then cur # split_sep_go sep [] (drop (length sep) s)
      else split_sep_go sep (cur @ [hd s]) (tl s))"
  by pat_completeness auto
termination
  by (relation "measure (\<lambda>(sep, cur, s). length s)") auto

definition split_sep :: "string \<Rightarrow> string \<Rightarrow> string list" where
  "split_sep sep s = split_sep_go sep [] s"

text \<open>\<open>s.strip(chars)\<close> and \<open>s.strip()\<close>.\<close>

definition strip_chars :: "(char \<Rightarrow> bool) \<Rightarrow> string \<Rightarrow> string" where
  "strip_chars P s = rev (dropWhile P (rev (dropWhile P s)))"

definition strip :: "string \<Rightarrow> string" where
  "strip s = strip_chars is_space s"

text \<open>Python's \<open>and\<close>, \<open>or\<close>, \<open>not\<close>, \<open>==\<close> and \<open>!=\<close> on operands that may
  raise: the right operand is only looked at when the left one does not decide.\<close>

definition por :: "pyerr + bool \<Rightarrow> pyerr + bool \<Rightarrow> pyerr + bool" where
  "por a b = (case a of Inl e \<Rightarrow> Inl e | Inr x \<Rightarrow> if x then Inr True else b)"

definition pand :: "pyerr + bool \<Rightarrow> pyerr + bool \<Rightarrow> pyerr + bool" where
  "pand a b = (case a of Inl e \<Rightarrow> Inl e | Inr x \<Rightarrow> if x then b else Inr False)"

definition pnot :: "pyerr + bool \<Rightarrow> pyerr + bool" where
  "pnot a = (case a of Inl e \<Rightarrow> Inl e | Inr x \<Rightarrow> Inr (\<not> x))"

definition peq :: "pyerr + bool \<Rightarrow> pyerr + bool \<Rightarrow> pyerr + bool" where
  "peq a b = (case a of Inl e \<Rightarrow> Inl e
              | Inr x \<Rightarrow> (case b of Inl e \<Rightarrow> Inl e | Inr y \<Rightarrow> Inr (x = y)))"

definition pne :: "pyerr + bool \<Rightarrow> pyerr + bool \<Rightarrow> pyerr + bool" where
  "pne a b = pnot (peq a b)"

definition any_of :: "(pyerr + bool) list \<Rightarrow> pyerr + bool" where
  "any_of cs = foldr por cs (Inr False)"

section \<open>The debugging session\<close>

text \<open>
  The methods of the engine read the attached debugger, the regular-expression engine and
  the helper module \<open>utils\<close>. What they answer is a field of \<open>session\<close>; the
  methods of the class are functions of the session.
  \<^item> \<open>getreg\<close>, \<open>getregs\<close>, \<open>getarch\<close> (the architecture name), \<open>getpid\<close>,
    \<open>getfile\<close>, \<open>intsize\<close>: the methods of these names.
  \<^item> \<open>parse_and_eval\<close>: gdb's evaluator, \<open>None\<close> on a gdb error.
  \<^item> \<open>prev_inst\<close>, \<open>next_inst\<close>: the instructions before and after an address, as
    \<open>(address, text)\<close>; \<open>next_inst\<close> can raise.
  \<^item> \<open>read_int\<close>: an integer of the given size read from memory, \<open>None\<close> when the
    read fails; \<open>readable\<close>: whether one byte can be read at an address.
  \<^item> \<open>get_vmmap\<close>: the memory ranges \<open>(start, end, perm, mapname)\<close> selected by a name.
  \<^item> \<open>execute\<close>: the output of a gdb command, \<open>None\<close> when the command fails (the
    method then returns \<open>False\<close>).
  \<^item> \<open>info_sections\<close>: the section lines found in the output of
    \<open>maintenance info sections\<close> as \<open>(start, end, offset, name, attributes)\<close>, the
    three hexadecimal numbers converted; \<open>None\<close> when the command prints nothing.
  \<^item> \<open>elfheader_solib\<close>: the section headers of a shared library.
  \<^item> \<open>re_findall1\<close>, \<open>re_findall2\<close>, \<open>re_search1\<close>: \<open>re.findall\<close> for a pattern
    with one and with two groups, and group 1 of \<open>re.search\<close>; \<open>re_search_ptr\<close>: the
    groups 1 to 4 of \<open>re.search\<close> for the pattern of a memory operand,
    \<^verbatim>\<open>\w+\s+(\w+) PTR (\[(\S+)\]|\w+:(0x\S+))\<close>, of which groups 3 and 4 can be
    \<open>None\<close>.
  \<^item> \<open>to_int\<close>, \<open>to_hex\<close>, \<open>is_printable\<close> (of \<open>int2hexstr(out, intsize)\<close>) and
    \<open>readelf\<close> (the output of the external \<open>readelf -W -a\<close> on a file): module
    \<open>utils\<close>.
\<close>

text \<open>The regular expressions of the methods modelled here:
  \<^item> \<open>RE_mov_esp\<close>: \<^verbatim>\<open>.*mov.*\[esp(.*)\],\<close>
  \<^item> \<open>RE_operands_x86\<close>: \<^verbatim>\<open>:\s*([^ ]*)\s*(.*),\<close>
  \<^item> \<open>RE_operands\<close>: \<^verbatim>\<open>:\s*([^\s]*)\s*([^,]*)\<close>
  \<^item> \<open>RE_regs_x86\<close>: \<^verbatim>\<open>di|si|dx|cx|r8|r9\<close>
  \<^item> \<open>RE_regs_arm\<close>: \<^verbatim>\<open>(r[0-5])\<close>
  \<^item> \<open>RE_regs_aarch64\<close>: \<^verbatim>\<open>(x[0-5]|w[0-5])\<close>
  \<^item> \<open>RE_disasm\<close>: \<^verbatim>\<open>.*?0x\S+?\s(.*)\<close>
  \<^item> \<open>RE_target\<close>: \<^verbatim>\<open>\w+\s+(0x\S+|\w+)\<close>
\<close>

datatype regex = RE_mov_esp | RE_operands_x86 | RE_operands | RE_regs_x86 | RE_regs_arm
  | RE_regs_aarch64 | RE_disasm | RE_target

type_synonym vmrange = "int \<times> int \<times> string \<times> string"
type_synonym header = "int \<times> int \<times> string"
type_synonym sect_match = "int \<times> int \<times> int \<times> string \<times> string"

record session =
  getreg :: "string \<Rightarrow> int option"
  getregs :: "(string \<rightharpoonup> int) option"
  getarch :: string
  getpid :: "int option"
  getfile :: "string option"
  intsize :: int
  parse_and_eval :: "string \<Rightarrow> int option"
  prev_inst :: "int \<Rightarrow> int \<Rightarrow> (int \<times> string) list option"
  next_inst :: "int \<Rightarrow> pyerr + (int \<times> string) list option"
  read_int :: "int \<Rightarrow> int \<Rightarrow> int option"
  readable :: "int \<Rightarrow> bool"
  get_vmmap :: "string option \<Rightarrow> vmrange list option"
  execute :: "string \<Rightarrow> string option"
  info_sections :: "sect_match list option"
  elfheader_solib :: "string \<Rightarrow> (string \<times> header) list"
  re_findall1 :: "regex \<Rightarrow> string \<Rightarrow> string list"
  re_findall2 :: "regex \<Rightarrow> string \<Rightarrow> (string \<times> string) list"
  re_search1 :: "regex \<Rightarrow> string \<Rightarrow> string option"
  re_search_ptr :: "string \<Rightarrow> (string \<times> string \<times> string option \<times> string option) option"
  to_int :: "pyval \<Rightarrow> int option"
  to_hex :: "int \<Rightarrow> string"
  is_printable :: "int \<Rightarrow> int \<Rightarrow> bool"
  readelf :: "string \<Rightarrow> string"

section \<open>Flag registers\<close>

text \<open>A flag dictionary, and \<open>flags[k]\<close>.\<close>

type_synonym flags = "string \<rightharpoonup> bool"

definition flag :: "flags \<Rightarrow> string \<Rightarrow> pyerr + bool" where
  "flag fl k = (case fl k of None \<Rightarrow> Inl KeyError | Some b \<Rightarrow> Inr b)"

definition EFLAGS_CF :: int where "EFLAGS_CF = push_bit 0 1"
definition EFLAGS_PF :: int where "EFLAGS_PF = push_bit 2 1"
definition EFLAGS_AF :: int where "EFLAGS_AF = push_bit 4 1"
definition EFLAGS_ZF :: int where "EFLAGS_ZF = push_bit 6 1"
definition EFLAGS_SF :: int where "EFLAGS_SF = push_bit 7 1"
definition EFLAGS_TF :: int where "EFLAGS_TF = push_bit 8 1"
definition EFLAGS_IF :: int where "EFLAGS_IF = push_bit 9 1"
definition EFLAGS_DF :: int where "EFLAGS_DF = push_bit 10 1"
definition EFLAGS_OF :: int where "EFLAGS_OF = push_bit 11 1"

definition get_eflags :: "session \<Rightarrow> flags option" where
  "get_eflags s =
     (case getreg s ''eflags'' of
        None \<Rightarrow> None
      | Some eflags \<Rightarrow>
          if eflags = 0 then None
          else Some [''CF'' \<mapsto> eflags AND EFLAGS_CF \<noteq> 0,
                     ''PF'' \<mapsto> eflags AND EFLAGS_PF \<noteq> 0,
                     ''AF'' \<mapsto> eflags AND EFLAGS_AF \<noteq> 0,
                     ''ZF'' \<mapsto> eflags AND EFLAGS_ZF \<noteq> 0,
                     ''SF'' \<mapsto> eflags AND EFLAGS_SF \<noteq> 0,
                     ''TF'' \<mapsto> eflags AND EFLAGS_TF \<noteq> 0,
                     ''IF'' \<mapsto> eflags AND EFLAGS_IF \<noteq> 0,
                     ''DF'' \<mapsto> eflags AND EFLAGS_DF \<noteq> 0,
                     ''OF'' \<mapsto> eflags AND EFLAGS_OF \<noteq> 0])"

definition CPSR_N :: int where "CPSR_N = push_bit 0x1f 1"
definition CPSR_Z :: int where "CPSR_Z = push_bit 0x1e 1"
definition CPSR_C :: int where "CPSR_C = push_bit 0x1d 1"
definition CPSR_V :: int where "CPSR_V = push_bit 0x1c 1"
definition CPSR_Q :: int where "CPSR_Q = push_bit 0x1b 1"
definition CPSR_J :: int where "CPSR_J = push_bit 0x18 1"
definition CPSR_GE :: int where "CPSR_GE = push_bit 0x10 7"
definition CPSR_E :: int where "CPSR_E = push_bit 9 1"
definition CPSR_D :: int where "CPSR_D = push_bit 9 1"
definition CPSR_A :: int where "CPSR_A = push_bit 8 1"
definition CPSR_I :: int where "CPSR_I = push_bit 7 1"
definition CPSR_F :: int where "CPSR_F = push_bit 6 1"
definition CPSR_T :: int where "CPSR_T = push_bit 5 1"

definition get_cpsr :: "session \<Rightarrow> flags option" where
  "get_cpsr s =
     (case getreg s ''cpsr'' of
        None \<Rightarrow> None
      | Some cpsr \<Rightarrow>
          Some [''T'' \<mapsto> cpsr AND CPSR_T \<noteq> 0,
                ''F'' \<mapsto> cpsr AND CPSR_F \<noteq> 0,
                ''I'' \<mapsto> cpsr AND CPSR_I \<noteq> 0,
                ''A'' \<mapsto> cpsr AND CPSR_A \<noteq> 0,
                ''E'' \<mapsto> cpsr AND CPSR_E \<noteq> 0,
                ''GE'' \<mapsto> cpsr AND CPSR_GE \<noteq> 0,
                ''J'' \<mapsto> cpsr AND CPSR_J \<noteq> 0,
                ''Q'' \<mapsto> cpsr AND CPSR_Q \<noteq> 0,
                ''V'' \<mapsto> cpsr AND CPSR_V \<noteq> 0,
                ''C'' \<mapsto> cpsr AND CPSR_C \<noteq> 0,
                ''Z'' \<mapsto> cpsr AND CPSR_Z \<noteq> 0,
                ''N'' \<mapsto> cpsr AND CPSR_N \<noteq> 0])"

definition get_aarch64_cpsr :: "session \<Rightarrow> flags option" where
  "get_aarch64_cpsr s =
     (case getreg s ''cpsr'' of
        None \<Rightarrow> None
      | Some cpsr \<Rightarrow>
          Some [''F'' \<mapsto> cpsr AND CPSR_F \<noteq> 0,
                ''I'' \<mapsto> cpsr AND CPSR_I \<noteq> 0,
                ''A'' \<mapsto> cpsr AND CPSR_A \<noteq> 0,
                ''D'' \<mapsto> cpsr AND CPSR_D \<noteq> 0,
                ''V'' \<mapsto> cpsr AND CPSR_V \<noteq> 0,
                ''C'' \<mapsto> cpsr AND CPSR_C \<noteq> 0,
                ''Z'' \<mapsto> cpsr AND CPSR_Z \<noteq> 0,
                ''N'' \<mapsto> cpsr AND CPSR_N \<noteq> 0])"

section \<open>Testing whether a jump is taken\<close>

text \<open>\<open>"%d" % n\<close>.\<close>

fun decdigits :: "nat \<Rightarrow> string" where
  "decdigits n =
     (if n < 10 then [''0123456789'' ! n]
      else decdigits (n div 10) @ [''0123456789'' ! (n mod 10)])"

definition dec_fmt :: "int \<Rightarrow> string" where
  "dec_fmt n = (if n < 0 then ''-'' @ decdigits (nat (- n)) else decdigits (nat n))"

text \<open>\<open>read_int\<close> at an address that may be \<open>None\<close>: gdb cannot convert \<open>None\<close> to an
  address, which is a type error and not the memory error that \<open>read_mem\<close> catches.\<close>

definition read_int_at :: "session \<Rightarrow> int option \<Rightarrow> int \<Rightarrow> pyerr + int option" where
  "read_int_at s address n =
     (case address of None \<Rightarrow> Inl TypeError | Some a \<Rightarrow> Inr (read_int s a n))"

text \<open>\<open>dest\<close> of a memory operand: group 3 inside brackets, with the size of the
  instruction added to a \<open>rip\<close>-relative expression, else group 4. A group that is
  \<open>None\<close> fails in \<open>"rip" in dest\<close> or inside \<open>parse_and_eval\<close>.\<close>

definition operand_dest :: "session \<Rightarrow> string \<Rightarrow> string option \<Rightarrow> string option \<Rightarrow> pyerr + string" where
  "operand_dest s g2 g3 g4 =
     (if CHR ''['' \<in> set g2 then
        (case g3 of
           None \<Rightarrow> Inl TypeError
         | Some dest \<Rightarrow>
             if str_in ''rip'' dest then
               (case getreg s ''pc'' of
                  None \<Rightarrow> Inl TypeError
                | Some pc \<Rightarrow>
                    (case next_inst s pc of
                       Inl e \<Rightarrow> Inl e
                     | Inr None \<Rightarrow> Inl TypeError
                     | Inr (Some []) \<Rightarrow> Inl IndexError
                     | Inr (Some ((a, code) # rest)) \<Rightarrow> Inr (dest @ ''+'' @ dec_fmt (a - pc))))
             else Inr dest)
      else (case g4 of None \<Rightarrow> Inl TypeError | Some dest \<Rightarrow> Inr dest))"

definition eval_target :: "session \<Rightarrow> string \<Rightarrow> string \<Rightarrow> pyerr + int option" where
  "eval_target s opcode inst =
     (if str_in ''ret'' opcode then
        (if str_in ''aarch64'' (getarch s) then Inr (getreg s ''x30'')
         else read_int_at s (getreg s ''sp'') (intsize s))
      else
        (case re_search_ptr s inst of
           Some (size_word, g2, g3, g4) \<Rightarrow>
             (case operand_dest s g2 g3 g4 of
                Inl e \<Rightarrow> Inl e
              | Inr dest \<Rightarrow>
                  (let addr = parse_and_eval s dest
                   in if size_word = ''QWORD'' then read_int_at s addr 8
                      else if size_word = ''DWORD'' then read_int_at s addr 4
                      else if size_word = ''WORD'' then read_int_at s addr 2
                      else Inl UnboundLocalError))
         | None \<Rightarrow>
             (case re_search1 s RE_target inst of
                Some g \<Rightarrow> Inr (parse_and_eval s g)
              | None \<Rightarrow> Inr None)))"

text \<open>The value of \<open>next_addr\<close> after \<open>if next_addr is None: next_addr = 0\<close>.\<close>

definition target_or_zero :: "int option \<Rightarrow> int" where
  "target_or_zero t = (case t of None \<Rightarrow> 0 | Some a \<Rightarrow> a)"

text \<open>The condition of \<open>testjump\<close>, clause by clause.\<close>

definition x86_taken :: "flags \<Rightarrow> string \<Rightarrow> pyerr + bool" where
  "x86_taken fl opcode = any_of
     [Inr (opcode = ''ret''),
      Inr (opcode = ''jmp''),
      pand (Inr (opcode = ''je'')) (flag fl ''ZF''),
      pand (Inr (opcode = ''jne'')) (pnot (flag fl ''ZF'')),
      pand (Inr (opcode = ''jg'')) (pand (pnot (flag fl ''ZF'')) (peq (flag fl ''SF'') (flag fl ''OF''))),
      pand (Inr (opcode = ''jge'')) (peq (flag fl ''SF'') (flag fl ''OF'')),
      pand (Inr (opcode = ''ja'')) (pand (pnot (flag fl ''CF'')) (pnot (flag fl ''ZF''))),
      pand (Inr (opcode = ''jae'')) (pnot (flag fl ''CF'')),
      pand (Inr (opcode = ''jl'')) (pne (flag fl ''SF'') (flag fl ''OF'')),
      pand (Inr (opcode = ''jle'')) (por (flag fl ''ZF'') (pne (flag fl ''SF'') (flag fl ''OF''))),
      pand (Inr (opcode = ''jb'')) (flag fl ''CF''),
      pand (Inr (opcode = ''jbe'')) (por (flag fl ''CF'') (flag fl ''ZF'')),
      pand (Inr (opcode = ''jo'')) (flag fl ''OF''),
      pand (Inr (opcode = ''jno'')) (pnot (flag fl ''OF'')),
      pand (Inr (opcode = ''jz'')) (flag fl ''ZF''),
      pand (Inr (opcode = ''jnz'')) (flag fl ''OF'')]"

definition testjump :: "session \<Rightarrow> string \<Rightarrow> string \<Rightarrow> pyerr + (bool \<times> int option)" where
  "testjump s opcode inst =
     (case get_eflags s of
        None \<Rightarrow> Inr (False, None)
      | Some fl \<Rightarrow>
          (case eval_target s opcode inst of
             Inl e \<Rightarrow> Inl e
           | Inr t \<Rightarrow>
               (case x86_taken fl opcode of
                  Inl e \<Rightarrow> Inl e
                | Inr b \<Rightarrow> if b then Inr (True, Some (target_or_zero t))
                           else Inr (False, None))))"

text \<open>The tail shared by the ARM and AArch64 tests:
  \<open>rn = inst.split(":\t")[-1].split()[1].strip(",")\<close>, then the register is evaluated.\<close>

definition cb_operand :: "string \<Rightarrow> pyerr + string" where
  "cb_operand inst =
     (let ws = split_ws (last (split_sep [CHR '':'', CHR 0x09] inst))
      in if length ws < 2 then Inl IndexError
         else Inr (strip_chars (\<lambda>c. c = CHR '','') (ws ! 1)))"

definition cb_tail :: "session \<Rightarrow> string \<Rightarrow> string \<Rightarrow> int \<Rightarrow> pyerr + (bool \<times> int option)" where
  "cb_tail s opcode inst next_addr =
     (if opcode = ''cbnz'' \<or> opcode = ''cbz'' then
        (case cb_operand inst of
           Inl e \<Rightarrow> Inl e
         | Inr rn \<Rightarrow> if parse_and_eval s rn = Some 0
                      then Inr (True, Some next_addr)
                      else Inr (False, None))
      else Inr (False, None))"

definition aarch64_taken :: "flags \<Rightarrow> string \<Rightarrow> pyerr + bool" where
  "aarch64_taken fl opcode = any_of
     [Inr (str_in ''ret'' opcode),
      Inr (opcode = ''b''),
      pand (Inr (opcode = ''b.eq'')) (flag fl ''Z''),
      pand (Inr (opcode = ''b.ne'')) (pnot (flag fl ''Z'')),
      pand (Inr (opcode = ''b.cs'')) (flag fl ''C''),
      pand (Inr (opcode = ''b.cc'')) (pnot (flag fl ''C'')),
      pand (Inr (opcode = ''b.mi'')) (flag fl ''N''),
      pand (Inr (opcode = ''b.pl'')) (pnot (flag fl ''N'')),
      pand (Inr (opcode = ''b.vs'')) (flag fl ''O''),
      pand (Inr (opcode = ''b.vc'')) (pnot (flag fl ''O'')),
      pand (Inr (opcode = ''b.hi'')) (pand (pnot (flag fl ''Z'')) (flag fl ''C'')),
      pand (Inr (opcode = ''b.ls'')) (pand (pnot (flag fl ''C'')) (flag fl ''Z'')),
      pand (Inr (opcode = ''b.ge'')) (peq (flag fl ''N'') (flag fl ''V'')),
      pand (Inr (opcode = ''b.lt'')) (pne (flag fl ''N'') (flag fl ''V'')),
      pand (Inr (opcode = ''b.gt'')) (pand (pnot (flag fl ''Z'')) (peq (flag fl ''N'') (flag fl ''V''))),
      pand (Inr (opcode = ''b.le'')) (pand (flag fl ''Z'') (pne (flag fl ''N'') (flag fl ''V'')))]"

definition aarch64_testjump :: "session \<Rightarrow> string \<Rightarrow> string \<Rightarrow> pyerr + (bool \<times> int option)" where
  "aarch64_testjump s opcode inst =
     (case get_aarch64_cpsr s of
        None \<Rightarrow> Inr (False, None)
      | Some fl \<Rightarrow>
          (case eval_target s opcode inst of
             Inl e \<Rightarrow> Inl e
           | Inr t \<Rightarrow>
               (case aarch64_taken fl opcode of
                  Inl e \<Rightarrow> Inl e
                | Inr b \<Rightarrow> if b then Inr (True, Some (target_or_zero t))
                           else cb_tail s opcode inst (target_or_zero t))))"

definition arm_taken :: "flags \<Rightarrow> string \<Rightarrow> pyerr + bool" where
  "arm_taken fl opcode = any_of
     [Inr (opcode = ''b''),
      pand (Inr (prefix ''beq'' opcode)) (flag fl ''Z''),
      pand (Inr (prefix ''bne'' opcode)) (pnot (flag fl ''Z'')),
      pand (Inr (prefix ''bcs'' opcode)) (flag fl ''C''),
      pand (Inr (prefix ''bcc'' opcode)) (pnot (flag fl ''C'')),
      pand (Inr (prefix ''bmi'' opcode)) (flag fl ''N''),
      pand (Inr (prefix ''bpl'' opcode)) (pnot (flag fl ''N'')),
      pand (Inr (prefix ''bvs'' opcode)) (flag fl ''O''),
      pand (Inr (prefix ''bvc'' opcode)) (pnot (flag fl ''O'')),
      pand (Inr (prefix ''bhi'' opcode)) (pand (pnot (flag fl ''Z'')) (flag fl ''C'')),
      pand (Inr (prefix ''bls'' opcode)) (pand (pnot (flag fl ''C'')) (flag fl ''Z'')),
      pand (Inr (prefix ''bge'' opcode)) (peq (flag fl ''N'') (flag fl ''V'')),
      pand (Inr (prefix ''blt'' opcode)) (pne (flag fl ''N'') (flag fl ''V'')),
      pand (Inr (prefix ''bgt'' opcode)) (pand (pnot (flag fl ''Z'')) (peq (flag fl ''N'') (flag fl ''V''))),
      pand (Inr (prefix ''ble'' opcode)) (pand (flag fl ''Z'') (pne (flag fl ''N'') (flag fl ''V'')))]"

definition arm_testjump :: "session \<Rightarrow> string \<Rightarrow> string \<Rightarrow> pyerr + (bool \<times> int option)" where
  "arm_testjump s opcode inst =
     (case get_cpsr s of
        None \<Rightarrow> Inr (False, None)
      | Some fl \<Rightarrow>
          (case eval_target s opcode inst of
             Inl e \<Rightarrow> Inl e
           | Inr t \<Rightarrow>
               (case arm_taken fl opcode of
                  Inl e \<Rightarrow> Inl e
                | Inr b \<Rightarrow> if b then Inr (True, Some (target_or_zero t))
                           else cb_tail s opcode inst (target_or_zero t))))"

section \<open>Hardening flags of an image\<close>

text \<open>\<open>str.splitlines()\<close>: a line ends at a line feed, a carriage return (with the line
  feed after it, if any) or one of the other line boundaries below code point 256.\<close>

definition is_linebreak :: "char \<Rightarrow> bool" where
  "is_linebreak c = (c \<in> set [CHR 0x0A, CHR 0x0B, CHR 0x0C, CHR 0x0D, CHR 0x1C, CHR 0x1D,
                               CHR 0x1E, CHR 0x85])"

fun splitlines_go :: "string \<Rightarrow> string \<Rightarrow> string list" where
  "splitlines_go cur [] = (if cur = [] then [] else [cur])"
| "splitlines_go cur [c] = (if is_linebreak c then [cur] else [cur @ [c]])"
| "splitlines_go cur (c # d # cs) =
     (if c = CHR 0x0D \<and> d = CHR 0x0A then cur # splitlines_go [] cs
      else if is_linebreak c then cur # splitlines_go [] (d # cs)
      else splitlines_go (cur @ [c]) (d # cs))"

definition splitlines :: "string \<Rightarrow> string list" where
  "splitlines s = splitlines_go [] s"

record secflags =
  RELRO :: int
  CANARY :: int
  NX :: int
  PIE :: int
  FORTIFY :: int

text \<open>The body of the loop over the lines of the \<open>readelf\<close> output.\<close>

definition checksec_line :: "secflags \<Rightarrow> string \<Rightarrow> secflags" where
  "checksec_line r0 line =
     (let r1 = (if str_in ''GNU_RELRO'' line then r0\<lparr>RELRO := RELRO r0 OR 2\<rparr> else r0);
          r2 = (if str_in ''BIND_NOW'' line then r1\<lparr>RELRO := RELRO r1 OR 1\<rparr> else r1);
          r3 = (if str_in ''__stack_chk_fail'' line then r2\<lparr>CANARY := 1\<rparr> else r2);
          r4 = (if str_in ''GNU_STACK'' line \<and> str_in ''RWE'' line then r3\<lparr>NX := 0\<rparr> else r3);
          r5 = (if str_in ''Type:'' line \<and> str_in ''DYN ('' line then r4\<lparr>PIE := 4\<rparr> else r4);
          r6 = (if str_in ''(DEBUG)'' line \<and> PIE r5 = 4 then r5\<lparr>PIE := 1\<rparr> else r5)
      in if str_in ''_chk@'' line then r6\<lparr>FORTIFY := 1\<rparr> else r6)"

text \<open>The file that is checked: the argument, or the debugged file when there is none.\<close>

definition checksec_file :: "session \<Rightarrow> string option \<Rightarrow> string option" where
  "checksec_file s filename = (case filename of None \<Rightarrow> getfile s | Some f \<Rightarrow> Some f)"

definition checksec :: "session \<Rightarrow> string option \<Rightarrow> secflags option" where
  "checksec s filename =
     (case checksec_file s filename of
        None \<Rightarrow> None
      | Some f \<Rightarrow>
          if f = [] then None
          else if str_in ''Error:'' (readelf s f) then None
          else
            (let r = foldl checksec_line
                       \<lparr>RELRO = 0, CANARY = 0, NX = 1, PIE = 0, FORTIFY = 0\<rparr>
                       (splitlines (readelf s f))
             in Some (if RELRO r = 1 then r\<lparr>RELRO := 0\<rparr> else r)))"

section \<open>Section headers of the debugged image\<close>

text \<open>Python's truth value of an optional list and of an optional integer.\<close>

definition truthy_list :: "'a list option \<Rightarrow> bool" where
  "truthy_list m = (case m of None \<Rightarrow> False | Some xs \<Rightarrow> xs \<noteq> [])"

definition truthy_int :: "int option \<Rightarrow> bool" where
  "truthy_int m = (case m of None \<Rightarrow> False | Some n \<Rightarrow> n \<noteq> 0)"

text \<open>\<open>elfbase\<close>: the start of the first range of the binary when the process runs.\<close>

definition elfbase :: "session \<Rightarrow> int" where
  "elfbase s =
     (if truthy_int (getpid s) then
        (case get_vmmap s (Some ''binary'') of
           None \<Rightarrow> 0
         | Some [] \<Rightarrow> 0
         | Some ((start, _) # _) \<Rightarrow> start)
      else 0)"

definition htype_of :: "string \<Rightarrow> string" where
  "htype_of attr =
     (if str_in ''CODE'' attr then ''code''
      else if str_in ''READONLY'' attr then ''rodata''
      else ''data'')"

text \<open>The body of the loop over the section lines. The dictionary \<open>elfinfo\<close> is an
  association list in insertion order; a name that is already there keeps its place.\<close>

definition elfheader_step :: "int \<Rightarrow> (string \<times> header) list \<Rightarrow> sect_match \<Rightarrow> (string \<times> header) list" where
  "elfheader_step base elfinfo m =
     (case m of (start, end, offset, hname, attr) \<Rightarrow>
        if start < offset then elfinfo
        else
          (let (start', end') = (if start < base then (start + base, end + base) else (start, end))
           in AList.update (strip hname) (start', end', htype_of attr) elfinfo))"

definition elfheader :: "session \<Rightarrow> string option \<Rightarrow> (string \<times> header) list" where
  "elfheader s name =
     (case info_sections s of
        None \<Rightarrow> []
      | Some matches \<Rightarrow>
          (let elfinfo = foldl (elfheader_step (elfbase s)) [] matches
           in case name of
                None \<Rightarrow> elfinfo
              | Some n \<Rightarrow>
                  (case map_of elfinfo n of
                     Some v \<Rightarrow> [(n, v)]
                   | None \<Rightarrow> filter (\<lambda>(k, v). str_in n k) elfinfo)))"

section \<open>Classifying a value\<close>

text \<open>\<open>"%#x" % n\<close>: the hexadecimal digits of \<open>n\<close> after \<open>0x\<close>, with the sign first.\<close>

fun hexdigits :: "nat \<Rightarrow> string" where
  "hexdigits n =
     (if n < 16 then [''0123456789abcdef'' ! n]
      else hexdigits (n div 16) @ [''0123456789abcdef'' ! (n mod 16)])"

definition hex_fmt :: "int \<Rightarrow> string" where
  "hex_fmt n = (if n < 0 then ''-0x'' @ hexdigits (nat (- n)) else ''0x'' @ hexdigits (nat n))"

text \<open>\<open>get_vmrange(address, maps)\<close>: the first range that holds the address; when there is
  no map at all, a page around an address that can be read.\<close>

definition get_vmrange :: "session \<Rightarrow> int \<Rightarrow> vmrange list option \<Rightarrow> vmrange option" where
  "get_vmrange s address maps =
     (let maps' = (case maps of None \<Rightarrow> get_vmmap s None | Some m \<Rightarrow> Some m)
      in if truthy_list maps' then
           find (\<lambda>(start, end, perm, mapname). start \<le> address \<and> end > address) (the maps')
         else if readable s address then
           (let start = address AND 0xfffffffffffff000
            in Some (start, start + 0x1000, ''rwx'', ''unknown''))
         else None)"

definition is_executable :: "session \<Rightarrow> int \<Rightarrow> vmrange list option \<Rightarrow> bool" where
  "is_executable s address maps =
     (case get_vmrange s address maps of
        None \<Rightarrow> False
      | Some (start, end, perm, mapname) \<Rightarrow> CHR ''x'' \<in> set perm)"

definition is_writable :: "session \<Rightarrow> int \<Rightarrow> vmrange list option \<Rightarrow> bool" where
  "is_writable s address maps =
     (case get_vmrange s address maps of
        None \<Rightarrow> False
      | Some (start, end, perm, mapname) \<Rightarrow> CHR ''w'' \<in> set perm)"

definition is_address :: "session \<Rightarrow> int \<Rightarrow> vmrange list option \<Rightarrow> bool" where
  "is_address s value maps = (get_vmrange s value maps \<noteq> None)"

text \<open>\<open>get_disasm(address)\<close> for one instruction.\<close>

definition rstrip :: "string \<Rightarrow> string" where
  "rstrip s = rev (dropWhile is_space (rev s))"

definition get_disasm :: "session \<Rightarrow> int \<Rightarrow> string" where
  "get_disasm s address =
     (case execute s (''x/1i '' @ hex_fmt address) of
        None \<Rightarrow> []
      | Some code \<Rightarrow> if code \<noteq> [] then rstrip code else [])"

text \<open>\<open>s.split(":", 1)[1]\<close>: what follows the first colon.\<close>

definition after_colon :: "string \<Rightarrow> pyerr + string" where
  "after_colon s =
     (case dropWhile (\<lambda>c. c \<noteq> CHR '':'') s of
        [] \<Rightarrow> Inl IndexError
      | c # rest \<Rightarrow> Inr rest)"

text \<open>The local function \<open>examine_data\<close>.\<close>

definition examine_data :: "session \<Rightarrow> int \<Rightarrow> pyerr + pyval" where
  "examine_data s value =
     (case read_int s value (intsize s) of
        None \<Rightarrow> Inr PNone
      | Some out \<Rightarrow>
          if is_printable s out (intsize s) then
            (case execute s (''x/s '' @ hex_fmt value) of
               None \<Rightarrow> Inl AttributeError
             | Some txt \<Rightarrow>
                 (case after_colon txt of
                    Inl e \<Rightarrow> Inl e
                  | Inr rest \<Rightarrow> Inr (PStr (strip rest))))
          else Inr (PInt out))"

type_synonym entry = "pyval \<times> pyval \<times> pyval"

text \<open>The decoded instruction at a code address: group 1 of the match, an attribute
  error when there is no match.\<close>

definition code_entry :: "session \<Rightarrow> int \<Rightarrow> string \<Rightarrow> pyerr + entry" where
  "code_entry s value out =
     (case re_search1 s RE_disasm out of
        None \<Rightarrow> Inl AttributeError
      | Some g \<Rightarrow> Inr (PStr (to_hex s value), PStr ''code'', PStr g))"

definition rodata_entry :: "session \<Rightarrow> int \<Rightarrow> pyerr + entry" where
  "rodata_entry s value =
     (case examine_data s value of
        Inl e \<Rightarrow> Inl e
      | Inr out \<Rightarrow> Inr (PStr (to_hex s value), PStr ''rodata'', out))"

definition examine_mem_value :: "session \<Rightarrow> int option \<Rightarrow> pyerr + entry" where
  "examine_mem_value s v =
     (case v of
        None \<Rightarrow> Inr (PNone, PNone, PNone)
      | Some value \<Rightarrow>
          if \<not> is_address s value None then
            Inr (PStr (to_hex s value), PStr ''value'', PStr [])
          else if is_writable s value None then
            (case examine_data s value of
               Inl e \<Rightarrow> Inl e
             | Inr PNone \<Rightarrow> Inr (PNone, PNone, PNone)
             | Inr out \<Rightarrow>
                 (case get_vmmap s (Some ''heap'') of
                    Some ((heap_start, heap_end, perm, mapname) # _) \<Rightarrow>
                      if value \<ge> heap_start \<and> value < heap_end
                      then Inr (PStr (to_hex s value), PStr ''heap'', out)
                      else Inr (PStr (to_hex s value), PStr ''data'', out)
                  | _ \<Rightarrow> Inr (PStr (to_hex s value), PStr ''data'', out)))
          else if is_executable s value None then
            (let mapname = (case get_vmrange s value None of
                              Some (_, _, _, n) \<Rightarrow> n | None \<Rightarrow> []);
                 headers = (if is_address s value (get_vmmap s (Some ''binary''))
                            then elfheader s None else elfheader_solib s mapname)
             in if headers \<noteq> [] then
                  (case find (\<lambda>(k, (start, end, type)). value \<ge> start \<and> value < end)
                          (sort_key (\<lambda>(k, (start, end, type)). end) headers) of
                     Some (k, (start, end, type)) \<Rightarrow>
                       if type = ''code'' then code_entry s value (get_disasm s value)
                       else rodata_entry s value
                   | None \<Rightarrow> rodata_entry s value)
                else
                  (let out = get_disasm s value
                   in if str_in ''(bad)'' out then rodata_entry s value
                      else code_entry s value out))
          else
            (case examine_data s value of
               Inl e \<Rightarrow> Inl e
             | Inr PNone \<Rightarrow> Inr (PStr (to_hex s value), PStr ''rodata'', PStr ''MemError'')
             | Inr out \<Rightarrow> Inr (PStr (to_hex s value), PStr ''rodata'', out)))"

section \<open>Following references\<close>

text \<open>\<open>result[-1] = (_v, _t, "--> ...")\<close>.\<close>

definition mark_truncated :: "entry list \<Rightarrow> pyerr + entry list" where
  "mark_truncated result =
     (if result = [] then Inl IndexError
      else (case last result of
              (v, t, vn) \<Rightarrow> Inr (butlast result @ [(v, t, PStr ''--> ...'')])))"

text \<open>The \<open>while\<close> loop of \<open>examine_mem_reference\<close>: the current triple and the result
  so far.\<close>

function emr_loop :: "session \<Rightarrow> int \<Rightarrow> entry \<Rightarrow> entry list \<Rightarrow> pyerr + entry list" where
  "emr_loop s depth (v, t, vn) result =
     (if vn = PNone then Inr result
      else if int (length result) > depth then mark_truncated result
      else
        (let result' = result @ [(v, t, vn)];
             v_int = to_int s v;
             vn_int = to_int s vn
         in if v = vn \<or> v_int = vn_int then Inr result'
            else if vn_int = None then Inr result'
            else if vn_int \<in> set (map (\<lambda>(v, _, _). to_int s v) result') then Inr result'
            else (case examine_mem_value s vn_int of
                    Inl e \<Rightarrow> Inl e
                  | Inr nxt \<Rightarrow> emr_loop s depth nxt result')))"
  by pat_completeness auto
termination
  by (relation "measure (\<lambda>(s, depth, cur, result). nat (depth + 1 - int (length result)))") auto

definition examine_mem_reference :: "session \<Rightarrow> int option \<Rightarrow> int \<Rightarrow> pyerr + entry list" where
  "examine_mem_reference s value depth =
     (let depth' = (if depth \<le> 0 then 0xffffffff else depth)
      in case examine_mem_value s value of
           Inl e \<Rightarrow> Inl e
         | Inr cur \<Rightarrow> emr_loop s depth' cur [])"

section \<open>Guessing the arguments of a call\<close>

text \<open>\<open>s.count(sub)\<close> for a \<open>sub\<close> that is not empty: occurrences that do not overlap.\<close>

function count_sub :: "string \<Rightarrow> string \<Rightarrow> int" where
  "count_sub sub s =
     (if s = [] \<or> sub = [] then 0
      else if prefix sub s then 1 + count_sub sub (drop (length sub) s)
      else count_sub sub (tl s))"
  by pat_completeness auto
termination
  by (relation "measure (\<lambda>(sub, s). length s)") auto

text \<open>\<open>" ".join(regs)\<close>.\<close>

fun join_space :: "string list \<Rightarrow> string" where
  "join_space [] = []"
| "join_space [x] = x"
| "join_space (x # y # ys) = x @ '' '' @ join_space (y # ys)"

definition opt_val :: "int option \<Rightarrow> pyval" where
  "opt_val m = (case m of None \<Rightarrow> PNone | Some n \<Rightarrow> PInt n)"

text \<open>The count of \<open>_get_function_args_32\<close> when none is forced.\<close>

definition infer_argc_32 :: "session \<Rightarrow> string \<Rightarrow> int" where
  "infer_argc_32 s code =
     (let matches = re_findall1 s RE_mov_esp code
      in if matches \<noteq> [] then
           int (length (filter
             (\<lambda>v. \<not> (prefix ''+'' v \<and>
                      (case to_int s (PStr (tl v)) of
                         None \<Rightarrow> False
                       | Some offset \<Rightarrow> offset div 4 > int (length matches))))
             matches))
         else count_sub ''push'' code)"

definition get_function_args_32 :: "session \<Rightarrow> string \<Rightarrow> int option \<Rightarrow> pyerr + pyval list" where
  "get_function_args_32 s code argc =
     (let argc1 = (case argc of
                     None \<Rightarrow> infer_argc_32 s code
                   | Some n \<Rightarrow> if n = 0 then infer_argc_32 s code else n);
          argc2 = min argc1 6
      in if argc2 = 0 then Inr []
         else if argc2 < 0 then Inr []
         else (case getreg s ''sp'' of
                 None \<Rightarrow> Inl TypeError
               | Some sp \<Rightarrow>
                   Inr (map (\<lambda>i. opt_val (read_int s (sp + int i * 4) 4)) [0..<nat argc2])))"

text \<open>The chain of \<open>if argc > i: argc += ...\<close> shared by the register conventions:
  \<open>dirty\<close> is the test of the "dirty fix", \<open>c0\<close> to \<open>c5\<close> what is added for each
  register.\<close>

definition guess_argc :: "bool \<Rightarrow> int \<Rightarrow> int \<Rightarrow> int \<Rightarrow> int \<Rightarrow> int \<Rightarrow> int \<Rightarrow> int" where
  "guess_argc dirty c0 c1 c2 c3 c4 c5 =
     (let a0 = (if dirty then 1 else 0) + c0;
          a1 = (if a0 > 0 then a0 + c1 else a0);
          a2 = (if a1 > 1 then a1 + c2 else a1);
          a3 = (if a2 > 2 then a2 + c3 else a2);
          a4 = (if a3 > 3 then a3 + c4 else a3)
      in if a4 > 4 then a4 + c5 else a4)"

text \<open>\<open>m.count(x)\<close> after \<open>m = list(set(m))\<close>.\<close>

definition count_uniq :: "string list \<Rightarrow> string \<Rightarrow> int" where
  "count_uniq m x = (if x \<in> set m then 1 else 0)"

text \<open>\<open>args += [regs[arg_order[i]]]\<close> for \<open>i\<close> in \<open>range(argc)\<close>.\<close>

fun regs_values :: "(string \<rightharpoonup> int) \<Rightarrow> string list \<Rightarrow> pyerr + pyval list" where
  "regs_values regs [] = Inr []"
| "regs_values regs (r # rs) =
     (case regs r of
        None \<Rightarrow> Inl KeyError
      | Some x \<Rightarrow> (case regs_values regs rs of Inl e \<Rightarrow> Inl e | Inr xs \<Rightarrow> Inr (PInt x # xs)))"

definition args_of_regs :: "session \<Rightarrow> string list \<Rightarrow> int \<Rightarrow> pyerr + pyval list" where
  "args_of_regs s arg_order argc =
     (if argc = 0 then Inr []
      else (case getregs s of
              None \<Rightarrow> Inl TypeError
            | Some regs \<Rightarrow>
                if nat argc > length arg_order then Inl IndexError
                else regs_values regs (take (nat argc) arg_order)))"

definition get_function_args_64 :: "session \<Rightarrow> string \<Rightarrow> int option \<Rightarrow> pyerr + pyval list" where
  "get_function_args_64 s code argc =
     (let m = re_findall1 s RE_regs_x86 (join_space (map snd (re_findall2 s RE_operands_x86 code)));
          n = guess_argc (''si'' \<in> set m \<and> ''di'' \<notin> set m)
                (count_uniq m ''di'') (count_uniq m ''si'') (count_uniq m ''dx'')
                (count_uniq m ''cx'') (count_uniq m ''r8'') (count_uniq m ''r9'')
      in args_of_regs s [''rdi'', ''rsi'', ''rdx'', ''rcx'', ''r8'', ''r9''] n)"

definition get_function_args_arm :: "session \<Rightarrow> string \<Rightarrow> int option \<Rightarrow> pyerr + pyval list" where
  "get_function_args_arm s code argc =
     (let m = re_findall1 s RE_regs_arm (join_space (map snd (re_findall2 s RE_operands code)));
          n = guess_argc (''r1'' \<in> set m \<and> ''r0'' \<notin> set m)
                (count_uniq m ''r0'') (count_uniq m ''r1'') (count_uniq m ''r2'')
                (count_uniq m ''r3'') (count_uniq m ''r4'') (count_uniq m ''r5'')
      in args_of_regs s [''r0'', ''r1'', ''r2'', ''r3'', ''r4'', ''r5''] n)"

definition count_xw :: "string list \<Rightarrow> string \<Rightarrow> string \<Rightarrow> int" where
  "count_xw m x w = (if count_uniq m x \<noteq> 0 then count_uniq m x else count_uniq m w)"

definition get_function_args_aarch64 :: "session \<Rightarrow> string \<Rightarrow> int option \<Rightarrow> pyerr + pyval list" where
  "get_function_args_aarch64 s code argc =
     (let m = re_findall1 s RE_regs_aarch64 (join_space (map snd (re_findall2 s RE_operands code)));
          n = guess_argc (''x1'' \<in> set m \<and> ''x0'' \<notin> set m)
                (count_uniq m ''x0'') (count_xw m ''x1'' ''w1'') (count_xw m ''x2'' ''w2'')
                (count_xw m ''x3'' ''w3'') (count_xw m ''x4'' ''w4'') (count_xw m ''x5'' ''w5'')
      in args_of_regs s [''x0'', ''x1'', ''x2'', ''x3'', ''x4'', ''x5''] n)"

text \<open>\<open>_get_function_args_ppc\<close>: after the first \<open>re.findall\<close>, the statement
  \<open>matches = p.findall(code)\<close> reads the name \<open>p\<close>, which is bound neither in the
  function nor in the module.\<close>

definition get_function_args_ppc :: "session \<Rightarrow> string \<Rightarrow> int option \<Rightarrow> pyerr + pyval list" where
  "get_function_args_ppc s code argc =
     (let matches = re_findall2 s RE_operands code
      in Inl NameError)"

text \<open>The instructions since the last call, newest first in the argument:
  \<open>code = "%#x:%s\n" % (addr, inst) + code\<close> until the first word of an instruction
  holds the marker.\<close>

fun build_code :: "string \<Rightarrow> (int \<times> string) list \<Rightarrow> string \<Rightarrow> pyerr + string" where
  "build_code marker [] code = Inr code"
| "build_code marker ((addr, inst) # rest) code =
     (case split_ws (strip inst) of
        [] \<Rightarrow> Inl IndexError
      | w # _ \<Rightarrow>
          if str_in marker w then Inr code
          else build_code marker rest (hex_fmt addr @ '':'' @ inst @ [CHR 0x0A] @ code))"

definition get_function_args :: "session \<Rightarrow> int option \<Rightarrow> pyerr + pyval list" where
  "get_function_args s argc =
     (if getregs s = None then Inr []
      else (case getreg s ''pc'' of
              None \<Rightarrow> Inl TypeError
            | Some pc \<Rightarrow>
                if \<not> truthy_list (prev_inst s pc 12) then Inr []
                else
                  (let arch = getarch s;
                       marker = (if str_in ''aarch64'' arch then ''bl'' else ''call'')
                   in case build_code marker (rev (the (prev_inst s pc 12))) [] of
                        Inl e \<Rightarrow> Inl e
                      | Inr code \<Rightarrow>
                          if str_in ''aarch64'' arch then get_function_args_aarch64 s code argc
                          else if str_in ''i386'' arch then get_function_args_32 s code argc
                          else if str_in ''64'' arch then get_function_args_64 s code argc
                          else if str_in ''arm'' arch then get_function_args_arm s code argc
                          else if str_in ''powerpc'' arch then get_function_args_ppc s code argc
                          else Inr [])))"

text \<open>A session in which nothing answers; the examples below change the fields they
  need.\<close>

definition null_session :: session where
  "null_session =
     \<lparr>getreg = (\<lambda>r. None), getregs = None, getarch = [], getpid = None, getfile = None,
      intsize = 8, parse_and_eval = (\<lambda>e. None),
      prev_inst = (\<lambda>a n. None), next_inst = (\<lambda>a. Inr None), read_int = (\<lambda>a n. None), readable = (\<lambda>a. False),
      get_vmmap = (\<lambda>name. None), execute = (\<lambda>c. None), info_sections = None,
      elfheader_solib = (\<lambda>n. []), re_findall1 = (\<lambda>p t. []), re_findall2 = (\<lambda>p t. []),
      re_search1 = (\<lambda>p t. None), re_search_ptr = (\<lambda>t. None), to_int = (\<lambda>v. None), to_hex = (\<lambda>n. []),
      is_printable = (\<lambda>n k. False), readelf = (\<lambda>f. [])\<rparr>"

section \<open>Notions used in the statements\<close>

text \<open>What the loop of \<open>elfheader\<close> stores for a section line that it keeps.\<close>

definition stored_header :: "int \<Rightarrow> sect_match \<Rightarrow> string \<times> header" where
  "stored_header base m =
     (case m of (start, end, offset, hname, attr) \<Rightarrow>
        (strip hname,
         (if start < base then start + base else start),
         (if start < base then end + base else end),
         htype_of attr))"

text \<open>The ranges of \<open>get_vmmap()\<close>, none when it returns \<open>None\<close>, and the test of
  \<open>get_vmrange\<close> that a range holds a value.\<close>

definition known_ranges :: "session \<Rightarrow> vmrange list" where
  "known_ranges s = (case get_vmmap s None of None \<Rightarrow> [] | Some m \<Rightarrow> m)"

definition in_range :: "int \<Rightarrow> vmrange \<Rightarrow> bool" where
  "in_range value r = (case r of (start, end, perm, mapname) \<Rightarrow> start \<le> value \<and> value < end)"

section \<open>Example sessions\<close>

text \<open>Concrete sessions, on which the statements below are evaluated: each changes the
  answers it needs in \<open>null_session\<close>.\<close>

text \<open>An x86 session with \<open>eflags = 0x246\<close> (also read as \<open>cpsr = 0xC0000000\<close> for the
  AArch64 test) in which the operand \<open>0x401136\<close> of the jumps below is found and
  evaluated; and the flag dictionaries that the two registers give.\<close>

definition jump_session :: session where
  "jump_session = null_session
     \<lparr>getreg := (\<lambda>r. if r = ''eflags'' then Some 0x246
                      else if r = ''cpsr'' then Some 0xC0000000 else None),
      parse_and_eval := (\<lambda>e. if e = ''0x401136'' then Some 0x401136 else None),
      re_search1 := (\<lambda>p t. if p = RE_target \<and>
                               t \<in> set [''je     0x401136'', ''jge    0x401136'', ''b.le   0x401136'',
                                        ''jne    0x401136'', ''jnz    0x401136'']
                            then Some ''0x401136'' else None)\<rparr>"

definition jump_eflags :: flags where
  "jump_eflags = [''CF'' \<mapsto> False, ''PF'' \<mapsto> True, ''AF'' \<mapsto> False, ''ZF'' \<mapsto> True,
      ''SF'' \<mapsto> False, ''TF'' \<mapsto> False, ''IF'' \<mapsto> True, ''DF'' \<mapsto> False, ''OF'' \<mapsto> False]"

definition jump_cpsr :: flags where
  "jump_cpsr = [''F'' \<mapsto> False, ''I'' \<mapsto> False, ''A'' \<mapsto> False, ''D'' \<mapsto> False,
      ''V'' \<mapsto> False, ''C'' \<mapsto> False, ''Z'' \<mapsto> True, ''N'' \<mapsto> True]"

text \<open>The same session with \<open>eflags = 0x202\<close> (\<open>ZF\<close> and \<open>OF\<close> clear).\<close>

definition clear_session :: session where
  "clear_session = jump_session\<lparr>getreg := (\<lambda>r. if r = ''eflags'' then Some 0x202 else None)\<rparr>"

definition clear_eflags :: flags where
  "clear_eflags = [''CF'' \<mapsto> False, ''PF'' \<mapsto> False, ''AF'' \<mapsto> False, ''ZF'' \<mapsto> False,
      ''SF'' \<mapsto> False, ''TF'' \<mapsto> False, ''IF'' \<mapsto> True, ''DF'' \<mapsto> False, ''OF'' \<mapsto> False]"

text \<open>An x86 session stopped at \<open>jmp QWORD PTR [rax]\<close> with \<open>rax = 0x601000\<close>, where no
  memory can be read; and the same session with the word \<open>0x401136\<close> at \<open>0x601000\<close>.\<close>

definition unreadable_session :: session where
  "unreadable_session = null_session
     \<lparr>getreg := (\<lambda>r. if r = ''eflags'' then Some 0x202 else None),
      parse_and_eval := (\<lambda>e. if e = ''rax'' then Some 0x601000 else None),
      re_search_ptr := (\<lambda>t. if t = ''jmp    QWORD PTR [rax]''
                            then Some (''QWORD'', ''[rax]'', Some ''rax'', None) else None)\<rparr>"

definition readable_session :: session where
  "readable_session = unreadable_session
     \<lparr>read_int := (\<lambda>a n. if a = 0x601000 \<and> n = 8 then Some 0x401136 else None)\<rparr>"

text \<open>An ARM or AArch64 session with \<open>cpsr = 0x60000010\<close>.\<close>

definition arm_session :: session where
  "arm_session = null_session
     \<lparr>getreg := (\<lambda>r. if r = ''cpsr'' then Some 0x60000010 else None),
      parse_and_eval := (\<lambda>e. if e = ''0x400580'' then Some 0x400580 else None),
      re_search1 := (\<lambda>p t. if p = RE_target then Some ''0x400580'' else None)\<rparr>"

text \<open>An image whose \<open>readelf\<close> output has a \<open>BIND_NOW\<close> line and no \<open>GNU_RELRO\<close> line.\<close>

definition relro_session :: session where
  "relro_session = null_session
     \<lparr>getfile := Some ''/bin/prog'',
      readelf := (\<lambda>f. ''  Type: EXEC (Executable file)'' @ [CHR 0x0A] @
                      ''  GNU_STACK 0x0 0x0 0x0 0x0 0x0 RW 0x10'' @ [CHR 0x0A] @
                      '' 0x18 (BIND_NOW)'' @ [CHR 0x0A])\<rparr>"

text \<open>A running image loaded at \<open>0x5000\<close> with two section lines.\<close>

definition pie_session :: session where
  "pie_session = null_session
     \<lparr>getpid := Some 4242,
      get_vmmap := (\<lambda>name. Some [(0x5000, 0x6000, ''r-xp'', ''/bin/prog'')]),
      info_sections := Some [(0x1200, 0x1300, 0x200, ''.text'', ''ALLOC LOAD READONLY CODE HAS_CONTENTS''),
                             (0x6000, 0x6100, 0x1000, ''.data'', ''ALLOC LOAD DATA HAS_CONTENTS'')]\<rparr>"

text \<open>An i386 session stopped at \<open>0x8048400\<close> with one instruction before the call; the
  stack word at \<open>sp + k\<close> is \<open>0x100 + k\<close>. The pattern \<open>RE_mov_esp\<close> finds the
  instruction, with an empty offset.\<close>

definition i386_session :: session where
  "i386_session = null_session
     \<lparr>getreg := (\<lambda>r. if r = ''pc'' then Some 0x8048400 else if r = ''sp'' then Some 0xffffd000 else None),
      getregs := Some [''eax'' \<mapsto> 0],
      getarch := ''elf32-i386'',
      prev_inst := (\<lambda>a n. Some [(0x80483f9, CHR 0x09 # ''mov    DWORD PTR [esp],0x1'')]),
      read_int := (\<lambda>a n. if n = 4 then Some (a - 0xffffd000 + 0x100) else None),
      re_findall1 := (\<lambda>p t. if p = RE_mov_esp then [''''] else [])\<rparr>"

text \<open>An x86-64 session stopped at \<open>0x401136\<close> with \<open>rdi = 1\<close>, \<open>rsi = 2\<close>,
  \<open>rdx = 3\<close>; the one instruction before the call names no argument register.\<close>

definition x64_session :: session where
  "x64_session = null_session
     \<lparr>getreg := (\<lambda>r. if r = ''pc'' then Some 0x401136 else None),
      getregs := Some [''rdi'' \<mapsto> 1, ''rsi'' \<mapsto> 2, ''rdx'' \<mapsto> 3, ''rcx'' \<mapsto> 4,
                       ''r8'' \<mapsto> 5, ''r9'' \<mapsto> 6],
      getarch := ''elf64-x86-64'',
      prev_inst := (\<lambda>a n. Some [(0x401134, CHR 0x09 # ''xor    eax,eax'')]),
      re_findall2 := (\<lambda>p t. if p = RE_operands_x86 then [(''xor'', ''eax'')] else [])\<rparr>"

text \<open>A 32-bit PowerPC session with one instruction before the call.\<close>

definition ppc_session :: session where
  "ppc_session = null_session
     \<lparr>getreg := (\<lambda>r. if r = ''pc'' then Some 0x10000400 else None),
      getregs := Some [''r3'' \<mapsto> 1, ''r4'' \<mapsto> 2],
      getarch := ''elf32-powerpc'',
      prev_inst := (\<lambda>a n. Some [(0x100003fc, CHR 0x09 # ''li      r3,1'')])\<rparr>"

text \<open>A session without memory map in which every address can be read, and one with a
  single mapped range.\<close>

definition probe_session :: session where
  "probe_session = null_session
     \<lparr>get_vmmap := (\<lambda>name. Some []), readable := (\<lambda>a. True),
      read_int := (\<lambda>a n. Some 7), to_hex := hex_fmt\<rparr>"

definition mapped_session :: session where
  "mapped_session = null_session
     \<lparr>get_vmmap := (\<lambda>name. Some [(0x400000, 0x401000, ''r-xp'', ''/bin/prog'')]),
      readable := (\<lambda>a. True), read_int := (\<lambda>a n. Some 7), to_hex := hex_fmt\<rparr>"

text \<open>A reading of \<open>to_int\<close> for the examples: an integer is itself, a string \<open>0x...\<close> of
  lower-case hexadecimal digits is its value.\<close>

fun hex_digit :: "char \<Rightarrow> nat option" where
  "hex_digit c =
     (if c \<in> set ''0123456789abcdef'' then Some (length (takeWhile (\<lambda>d. d \<noteq> c) ''0123456789abcdef''))
      else None)"

fun hex_value :: "nat \<Rightarrow> string \<Rightarrow> nat option" where
  "hex_value acc [] = Some acc"
| "hex_value acc (c # cs) =
     (case hex_digit c of None \<Rightarrow> None | Some d \<Rightarrow> hex_value (16 * acc + d) cs)"

definition hex_to_int :: "pyval \<Rightarrow> int option" where
  "hex_to_int v =
     (case v of
        PNone \<Rightarrow> None
      | PInt n \<Rightarrow> Some n
      | PStr x \<Rightarrow>
          (if prefix ''0x'' x \<and> length x > 2 then map_option int (hex_value 0 (drop 2 x))
           else None))"

text \<open>Three words of writable memory that point to each other in a cycle.\<close>

definition cycle_session :: session where
  "cycle_session = null_session
     \<lparr>get_vmmap := (\<lambda>name. if name = None then Some [(0x601000, 0x602000, ''rw-p'', ''/bin/prog'')]
                           else Some []),
      read_int := (\<lambda>a n. if a = 0x601000 then Some 0x601008
                          else if a = 0x601008 then Some 0x601010
                          else if a = 0x601010 then Some 0x601000 else None),
      to_hex := hex_fmt, to_int := hex_to_int\<rparr>"

text \<open>A word of writable memory that points to itself.\<close>

definition self_session :: session where
  "self_session = null_session
     \<lparr>get_vmmap := (\<lambda>name. if name = None then Some [(0x601000, 0x602000, ''rw-p'', ''/bin/prog'')]
                           else Some []),
      read_int := (\<lambda>a n. if a = 0x601000 then Some 0x601000 else None),
      to_hex := hex_fmt, to_int := hex_to_int\<rparr>"

section \<open>Properties\<close>

lemmas taken_defs = any_of_def por_def pand_def pnot_def peq_def pne_def flag_def

lemma get_eflags_keys:
  assumes "get_eflags s = Some fl"
  shows "\<exists>cf zf sf ofl. fl ''CF'' = Some cf \<and> fl ''ZF'' = Some zf \<and> fl ''SF'' = Some sf \<and>
           fl ''OF'' = Some ofl"
  using assms by (auto simp: get_eflags_def split: option.splits if_splits)

lemma get_aarch64_cpsr_keys:
  assumes "get_aarch64_cpsr s = Some fl"
  shows "\<exists>n z c v. fl ''N'' = Some n \<and> fl ''Z'' = Some z \<and> fl ''C'' = Some c \<and>
           fl ''V'' = Some v \<and> fl ''O'' = None"
  using assms by (auto simp: get_aarch64_cpsr_def split: option.splits if_splits)

lemma get_cpsr_keys:
  assumes "get_cpsr s = Some fl"
  shows "\<exists>n z c v. fl ''N'' = Some n \<and> fl ''Z'' = Some z \<and> fl ''C'' = Some c \<and>
           fl ''V'' = Some v \<and> fl ''O'' = None"
  using assms by (auto simp: get_cpsr_def split: option.splits if_splits)

lemma x86_taken_je: "fl ''ZF'' = Some zf \<Longrightarrow> x86_taken fl ''je'' = Inr zf"
  by (simp add: x86_taken_def taken_defs)

lemma x86_taken_jge:
  "fl ''SF'' = Some sf \<Longrightarrow> fl ''OF'' = Some ofl \<Longrightarrow> x86_taken fl ''jge'' = Inr (sf = ofl)"
  by (simp add: x86_taken_def taken_defs)

lemma x86_taken_jne: "fl ''ZF'' = Some zf \<Longrightarrow> x86_taken fl ''jne'' = Inr (\<not> zf)"
  by (simp add: x86_taken_def taken_defs)

lemma x86_taken_jnz: "fl ''OF'' = Some ofl \<Longrightarrow> x86_taken fl ''jnz'' = Inr ofl"
  by (simp add: x86_taken_def taken_defs)

lemma x86_taken_jmp: "x86_taken fl ''jmp'' = Inr True"
  by (simp add: x86_taken_def taken_defs)

lemma aarch64_taken_ble:
  "fl ''Z'' = Some z \<Longrightarrow> fl ''N'' = Some n \<Longrightarrow> fl ''V'' = Some v \<Longrightarrow>
   aarch64_taken fl ''b.le'' = Inr (z \<and> n \<noteq> v)"
  by (simp add: aarch64_taken_def taken_defs)

text \<open>
  Claim C9. For every flag state, and a target whose decoding does not raise, the decision
  follows the condition table: on x86 \<open>je\<close> is taken exactly when \<open>ZF\<close> is set and
  \<open>jge\<close> exactly when \<open>SF\<close> equals \<open>OF\<close>; on AArch64 \<open>b.le\<close> is taken exactly when
  \<open>Z\<close> is set and \<open>N\<close> differs from \<open>V\<close>. A taken jump is returned with its target (0
  for a target that does not resolve), a jump that is not taken as \<open>(False, None)\<close>;
  \<open>je\<close> with \<open>ZF\<close> set and a target that decodes to \<open>a\<close> gives \<open>(True, a)\<close>.
\<close>

theorem condition_table:
  "(get_eflags s = Some fl \<and> eval_target s ''je'' inst = Inr t \<longrightarrow>
      testjump s ''je'' inst =
        (if fl ''ZF'' = Some True then Inr (True, Some (target_or_zero t)) else Inr (False, None))) \<and>
   (get_eflags s = Some fl \<and> eval_target s ''jge'' inst' = Inr t' \<longrightarrow>
      testjump s ''jge'' inst' =
        (if fl ''SF'' = fl ''OF'' then Inr (True, Some (target_or_zero t')) else Inr (False, None))) \<and>
   (get_aarch64_cpsr s = Some cfl \<and> eval_target s ''b.le'' inst'' = Inr t'' \<longrightarrow>
      aarch64_testjump s ''b.le'' inst'' =
        (if cfl ''Z'' = Some True \<and> cfl ''N'' \<noteq> cfl ''V''
         then Inr (True, Some (target_or_zero t'')) else Inr (False, None))) \<and>
   (get_eflags s = Some fl \<and> fl ''ZF'' = Some True \<and> eval_target s ''je'' inst = Inr (Some a) \<longrightarrow>
      testjump s ''je'' inst = Inr (True, Some a))"
proof (intro conjI impI)
  assume h: "get_eflags s = Some fl \<and> eval_target s ''je'' inst = Inr t"
  from get_eflags_keys [of s fl] h obtain zf where k: "fl ''ZF'' = Some zf"
    by blast
  show "testjump s ''je'' inst =
        (if fl ''ZF'' = Some True then Inr (True, Some (target_or_zero t)) else Inr (False, None))"
    using h k by (simp add: testjump_def x86_taken_je)
next
  assume h: "get_eflags s = Some fl \<and> eval_target s ''jge'' inst' = Inr t'"
  from get_eflags_keys [of s fl] h obtain sf ofl where k: "fl ''SF'' = Some sf" "fl ''OF'' = Some ofl"
    by blast
  show "testjump s ''jge'' inst' =
        (if fl ''SF'' = fl ''OF'' then Inr (True, Some (target_or_zero t')) else Inr (False, None))"
    using h k by (simp add: testjump_def x86_taken_jge)
next
  assume h: "get_aarch64_cpsr s = Some cfl \<and> eval_target s ''b.le'' inst'' = Inr t''"
  from get_aarch64_cpsr_keys [of s cfl] h obtain n z v where
    k: "cfl ''N'' = Some n" "cfl ''Z'' = Some z" "cfl ''V'' = Some v"
    by blast
  show "aarch64_testjump s ''b.le'' inst'' =
        (if cfl ''Z'' = Some True \<and> cfl ''N'' \<noteq> cfl ''V''
         then Inr (True, Some (target_or_zero t'')) else Inr (False, None))"
    using h k by (simp add: aarch64_testjump_def aarch64_taken_ble cb_tail_def)
next
  assume h: "get_eflags s = Some fl \<and> fl ''ZF'' = Some True \<and> eval_target s ''je'' inst = Inr (Some a)"
  then show "testjump s ''je'' inst = Inr (True, Some a)"
    by (simp add: testjump_def x86_taken_je target_or_zero_def)
qed

lemmas mask_defs = EFLAGS_CF_def EFLAGS_PF_def EFLAGS_AF_def
      EFLAGS_ZF_def EFLAGS_SF_def EFLAGS_TF_def EFLAGS_IF_def EFLAGS_DF_def EFLAGS_OF_def
      CPSR_N_def CPSR_Z_def CPSR_C_def CPSR_V_def CPSR_Q_def CPSR_J_def CPSR_GE_def CPSR_E_def
      CPSR_D_def CPSR_A_def CPSR_I_def CPSR_F_def CPSR_T_def

lemma get_eflags_jump_session: "get_eflags jump_session = Some jump_eflags"
  by (simp add: get_eflags_def jump_session_def null_session_def jump_eflags_def mask_defs)

lemma get_aarch64_cpsr_jump_session: "get_aarch64_cpsr jump_session = Some jump_cpsr"
  by (simp add: get_aarch64_cpsr_def jump_session_def null_session_def jump_cpsr_def mask_defs)

lemma eval_target_jump_session:
  "eval_target jump_session ''je'' ''je     0x401136'' = Inr (Some 0x401136)"
  "eval_target jump_session ''jge'' ''jge    0x401136'' = Inr (Some 0x401136)"
  "eval_target jump_session ''b.le'' ''b.le   0x401136'' = Inr (Some 0x401136)"
  by (simp_all add: eval_target_def jump_session_def null_session_def)

text \<open>
  Witness for C9: \<open>eflags = 0x246\<close> (\<open>ZF\<close> set, \<open>SF = OF\<close>) and \<open>cpsr = 0xC0000000\<close>
  (\<open>N\<close> and \<open>Z\<close> set, \<open>V\<close> clear).
\<close>

theorem condition_table_witness:
  "get_eflags jump_session = Some jump_eflags \<and> jump_eflags ''ZF'' = Some True \<and>
   get_aarch64_cpsr jump_session = Some jump_cpsr \<and>
   eval_target jump_session ''je'' ''je     0x401136'' = Inr (Some 0x401136) \<and>
   eval_target jump_session ''jge'' ''jge    0x401136'' = Inr (Some 0x401136) \<and>
   eval_target jump_session ''b.le'' ''b.le   0x401136'' = Inr (Some 0x401136) \<and>
   testjump jump_session ''je'' ''je     0x401136'' = Inr (True, Some 0x401136) \<and>
   testjump jump_session ''jge'' ''jge    0x401136'' = Inr (True, Some 0x401136) \<and>
   aarch64_testjump jump_session ''b.le'' ''b.le   0x401136'' = Inr (True, Some 0x401136)"
proof -
  have z: "jump_eflags ''ZF'' = Some True" "jump_eflags ''SF'' = jump_eflags ''OF''"
    by (simp_all add: jump_eflags_def)
  have c: "jump_cpsr ''Z'' = Some True" "jump_cpsr ''N'' \<noteq> jump_cpsr ''V''"
    by (simp_all add: jump_cpsr_def)
  note t = condition_table [of jump_session jump_eflags "''je     0x401136''" "Some 0x401136"
      "''jge    0x401136''" "Some 0x401136" jump_cpsr "''b.le   0x401136''" "Some 0x401136" "0x401136"]
  have "testjump jump_session ''je'' ''je     0x401136'' = Inr (True, Some 0x401136)"
    using t get_eflags_jump_session eval_target_jump_session(1) z by blast
  moreover have "testjump jump_session ''jge'' ''jge    0x401136'' = Inr (True, Some 0x401136)"
    using t get_eflags_jump_session eval_target_jump_session(2) z
    by (simp add: target_or_zero_def)
  moreover have "aarch64_testjump jump_session ''b.le'' ''b.le   0x401136'' = Inr (True, Some 0x401136)"
    using t get_aarch64_cpsr_jump_session eval_target_jump_session(3) c
    by (simp add: target_or_zero_def)
  ultimately show ?thesis
    using get_eflags_jump_session get_aarch64_cpsr_jump_session eval_target_jump_session z by simp
qed

text \<open>
  Claim C10. For every x86 flag state, and a target whose decoding does not raise,
  \<open>testjump\<close> takes \<open>jnz\<close> exactly when \<open>OF\<close> is set and \<open>jne\<close> exactly when \<open>ZF\<close>
  is clear; with \<open>ZF\<close> and \<open>OF\<close> both clear, \<open>jne\<close> is taken and \<open>jnz\<close> is not.
\<close>

theorem jnz_reads_overflow:
  "(get_eflags s = Some fl \<and> eval_target s ''jnz'' inst = Inr t \<longrightarrow>
      testjump s ''jnz'' inst =
        (if fl ''OF'' = Some True then Inr (True, Some (target_or_zero t)) else Inr (False, None))) \<and>
   (get_eflags s = Some fl \<and> eval_target s ''jne'' inst' = Inr t' \<longrightarrow>
      testjump s ''jne'' inst' =
        (if fl ''ZF'' = Some False then Inr (True, Some (target_or_zero t')) else Inr (False, None))) \<and>
   (get_eflags s = Some fl \<and> fl ''ZF'' = Some False \<and> fl ''OF'' = Some False \<and>
    eval_target s ''jnz'' inst = Inr t \<and> eval_target s ''jne'' inst' = Inr t' \<longrightarrow>
      testjump s ''jne'' inst' = Inr (True, Some (target_or_zero t')) \<and>
      testjump s ''jnz'' inst = Inr (False, None))"
proof -
  have a: "testjump s ''jnz'' inst =
        (if fl ''OF'' = Some True then Inr (True, Some (target_or_zero t)) else Inr (False, None))"
    if h: "get_eflags s = Some fl" "eval_target s ''jnz'' inst = Inr t"
  proof -
    from get_eflags_keys [OF h(1)] obtain ofl where k: "fl ''OF'' = Some ofl"
      by blast
    show ?thesis
      using h k by (simp add: testjump_def x86_taken_jnz)
  qed
  have b: "testjump s ''jne'' inst' =
        (if fl ''ZF'' = Some False then Inr (True, Some (target_or_zero t')) else Inr (False, None))"
    if h: "get_eflags s = Some fl" "eval_target s ''jne'' inst' = Inr t'"
  proof -
    from get_eflags_keys [OF h(1)] obtain zf where k: "fl ''ZF'' = Some zf"
      by blast
    show ?thesis
      using h k by (simp add: testjump_def x86_taken_jne)
  qed
  from a b show ?thesis by simp
qed

lemma get_eflags_clear_session: "get_eflags clear_session = Some clear_eflags"
  by (simp add: get_eflags_def clear_session_def clear_eflags_def mask_defs)

lemma eval_target_clear_session:
  "eval_target clear_session ''jne'' ''jne    0x401136'' = Inr (Some 0x401136)"
  "eval_target clear_session ''jnz'' ''jnz    0x401136'' = Inr (Some 0x401136)"
  by (simp_all add: eval_target_def clear_session_def jump_session_def null_session_def)

text \<open>
  Witness for C10: \<open>eflags = 0x202\<close>, where \<open>ZF\<close> and \<open>OF\<close> are clear.
\<close>

theorem jnz_reads_overflow_witness:
  "get_eflags clear_session = Some clear_eflags \<and> clear_eflags ''ZF'' = Some False \<and>
   clear_eflags ''OF'' = Some False \<and>
   eval_target clear_session ''jnz'' ''jnz    0x401136'' = Inr (Some 0x401136) \<and>
   eval_target clear_session ''jne'' ''jne    0x401136'' = Inr (Some 0x401136) \<and>
   testjump clear_session ''jne'' ''jne    0x401136'' = Inr (True, Some 0x401136) \<and>
   testjump clear_session ''jnz'' ''jnz    0x401136'' = Inr (False, None)"
proof -
  have z: "clear_eflags ''ZF'' = Some False" "clear_eflags ''OF'' = Some False"
    by (simp_all add: clear_eflags_def)
  from jnz_reads_overflow [of clear_session clear_eflags "''jnz    0x401136''" "Some 0x401136"
      "''jne    0x401136''" "Some 0x401136"]
    get_eflags_clear_session eval_target_clear_session z
  have "testjump clear_session ''jne'' ''jne    0x401136'' = Inr (True, Some (target_or_zero (Some 0x401136))) \<and>
        testjump clear_session ''jnz'' ''jnz    0x401136'' = Inr (False, None)"
    by blast
  then show ?thesis
    using get_eflags_clear_session eval_target_clear_session z
    by (simp add: target_or_zero_def)
qed

lemma cb_tail_unresolved:
  assumes "parse_and_eval s' = parse_and_eval s"
  shows "cb_tail s opcode inst 0 =
     (case cb_tail s' opcode inst a of
        Inl e \<Rightarrow> Inl e | Inr (b, x) \<Rightarrow> Inr (b, if b then Some 0 else None))"
  using assms by (auto simp: cb_tail_def split: sum.splits)

text \<open>
  Claim C1, amended. When \<open>eval_target\<close> yields no address, each of the three tests
  returns what it returns in a session with the same registers and the same expression
  values in which the target resolves, except that a taken jump carries the target 0:
  \<open>(True, 0)\<close> when the jump is taken, \<open>(False, None)\<close> when it is not, and the same
  exception when one is raised.
\<close>

theorem unresolved_target_is_zero:
  assumes "eval_target s opcode inst = Inr None"
    and "eval_target s' opcode inst = Inr (Some a)"
    and "getreg s' = getreg s"
    and "parse_and_eval s' = parse_and_eval s"
  shows "testjump s opcode inst =
           (case testjump s' opcode inst of
              Inl e \<Rightarrow> Inl e | Inr (b, x) \<Rightarrow> Inr (b, if b then Some 0 else None)) \<and>
         aarch64_testjump s opcode inst =
           (case aarch64_testjump s' opcode inst of
              Inl e \<Rightarrow> Inl e | Inr (b, x) \<Rightarrow> Inr (b, if b then Some 0 else None)) \<and>
         arm_testjump s opcode inst =
           (case arm_testjump s' opcode inst of
              Inl e \<Rightarrow> Inl e | Inr (b, x) \<Rightarrow> Inr (b, if b then Some 0 else None))"
proof (intro conjI)
  have f: "get_eflags s' = get_eflags s" "get_cpsr s' = get_cpsr s"
    "get_aarch64_cpsr s' = get_aarch64_cpsr s"
    using assms(3) by (simp_all add: get_eflags_def get_cpsr_def get_aarch64_cpsr_def)
  show "testjump s opcode inst =
           (case testjump s' opcode inst of
              Inl e \<Rightarrow> Inl e | Inr (b, x) \<Rightarrow> Inr (b, if b then Some 0 else None))"
    using assms(1,2) f
    by (simp add: testjump_def target_or_zero_def split: option.splits sum.splits)
  show "aarch64_testjump s opcode inst =
           (case aarch64_testjump s' opcode inst of
              Inl e \<Rightarrow> Inl e | Inr (b, x) \<Rightarrow> Inr (b, if b then Some 0 else None))"
    using assms(1,2) f cb_tail_unresolved [OF assms(4), of opcode inst a]
    by (simp add: aarch64_testjump_def target_or_zero_def split: option.splits sum.splits)
  show "arm_testjump s opcode inst =
           (case arm_testjump s' opcode inst of
              Inl e \<Rightarrow> Inl e | Inr (b, x) \<Rightarrow> Inr (b, if b then Some 0 else None))"
    using assms(1,2) f cb_tail_unresolved [OF assms(4), of opcode inst a]
    by (simp add: arm_testjump_def target_or_zero_def split: option.splits sum.splits)
qed

lemma get_eflags_unreadable_session:
  "get_eflags unreadable_session = Some clear_eflags"
  "get_eflags readable_session = Some clear_eflags"
  by (simp_all add: get_eflags_def readable_session_def unreadable_session_def null_session_def
      clear_eflags_def mask_defs)

lemma eval_target_unreadable_session:
  "eval_target unreadable_session ''jmp'' ''jmp    QWORD PTR [rax]'' = Inr None"
  "eval_target readable_session ''jmp'' ''jmp    QWORD PTR [rax]'' = Inr (Some 0x401136)"
  by (simp_all add: eval_target_def operand_dest_def read_int_at_def readable_session_def
      unreadable_session_def null_session_def)

text \<open>
  Counterexample to C1 as stated: the word at \<open>rax\<close> cannot be read, so the target of
  this \<open>jmp\<close> does not resolve, and the target returned is 0, not \<open>None\<close>.
\<close>

theorem unresolved_target_counterexample:
  "eval_target unreadable_session ''jmp'' ''jmp    QWORD PTR [rax]'' = Inr None \<and>
   testjump unreadable_session ''jmp'' ''jmp    QWORD PTR [rax]'' = Inr (True, Some 0)"
  by (simp add: testjump_def get_eflags_unreadable_session eval_target_unreadable_session
      x86_taken_jmp target_or_zero_def)

lemma testjump_readable_session:
  "testjump readable_session ''jmp'' ''jmp    QWORD PTR [rax]'' = Inr (True, Some 0x401136)"
  by (simp add: testjump_def get_eflags_unreadable_session eval_target_unreadable_session
      x86_taken_jmp target_or_zero_def)

text \<open>
  Witness for C1: the same \<open>jmp\<close> without and with a readable word at \<open>rax\<close>.
\<close>

theorem unresolved_target_is_zero_witness:
  "eval_target unreadable_session ''jmp'' ''jmp    QWORD PTR [rax]'' = Inr None \<and>
   eval_target readable_session ''jmp'' ''jmp    QWORD PTR [rax]'' = Inr (Some 0x401136) \<and>
   getreg readable_session = getreg unreadable_session \<and>
   parse_and_eval readable_session = parse_and_eval unreadable_session \<and>
   testjump readable_session ''jmp'' ''jmp    QWORD PTR [rax]'' = Inr (True, Some 0x401136) \<and>
   testjump unreadable_session ''jmp'' ''jmp    QWORD PTR [rax]'' = Inr (True, Some 0)"
proof -
  have g: "getreg readable_session = getreg unreadable_session"
    "parse_and_eval readable_session = parse_and_eval unreadable_session"
    by (simp_all add: readable_session_def)
  from unresolved_target_is_zero [OF eval_target_unreadable_session g]
  have "testjump unreadable_session ''jmp'' ''jmp    QWORD PTR [rax]'' = Inr (True, Some 0)"
    by (simp add: testjump_readable_session)
  then show ?thesis
    using eval_target_unreadable_session g testjump_readable_session by simp
qed

lemma eval_target_arm_session:
  "\<not> str_in ''ret'' opcode \<Longrightarrow> eval_target arm_session opcode inst = Inr (Some 0x400580)"
  by (simp add: eval_target_def arm_session_def null_session_def)

text \<open>
  Claim C5 fails on the code: the overflow conditions read \<open>flags["O"]\<close>, a key that
  neither \<open>get_cpsr\<close> nor \<open>get_aarch64_cpsr\<close> puts into the dictionary (the overflow
  flag is stored under \<open>"V"\<close>), so the four opcodes raise \<open>KeyError\<close>.
\<close>

theorem overflow_branch_raises:
  "aarch64_testjump arm_session ''b.vs'' ''b.vs   0x400580'' = Inl KeyError \<and>
   aarch64_testjump arm_session ''b.vc'' ''b.vc   0x400580'' = Inl KeyError \<and>
   arm_testjump arm_session ''bvs'' ''bvs    0x400580'' = Inl KeyError \<and>
   arm_testjump arm_session ''bvc'' ''bvc    0x400580'' = Inl KeyError"
proof -
  have c: "getreg arm_session ''cpsr'' = Some 0x60000010"
    by (simp add: arm_session_def null_session_def)
  have e: "eval_target arm_session ''b.vs'' inst = Inr (Some 0x400580)"
    "eval_target arm_session ''b.vc'' inst = Inr (Some 0x400580)"
    "eval_target arm_session ''bvs'' inst = Inr (Some 0x400580)"
    "eval_target arm_session ''bvc'' inst = Inr (Some 0x400580)" for inst
    by (simp_all add: eval_target_arm_session)
  show ?thesis
    by (simp add: aarch64_testjump_def arm_testjump_def get_aarch64_cpsr_def get_cpsr_def
        c e aarch64_taken_def arm_taken_def taken_defs)
qed

lemma RELRO_checksec_line:
  "RELRO (checksec_line r l) =
     RELRO r OR (if str_in ''GNU_RELRO'' l then 2 else 0) OR (if str_in ''BIND_NOW'' l then 1 else 0)"
  by (simp add: checksec_line_def Let_def or.assoc)

lemma RELRO_foldl:
  "RELRO (foldl checksec_line r ls) =
     RELRO r OR (if \<exists>l\<in>set ls. str_in ''GNU_RELRO'' l then 2 else 0)
             OR (if \<exists>l\<in>set ls. str_in ''BIND_NOW'' l then 1 else 0)"
proof (induction ls arbitrary: r)
  case Nil
  show ?case by simp
next
  case (Cons l ls)
  show ?case
    by (simp add: Cons.IH RELRO_checksec_line or.assoc)
qed

text \<open>
  Claim C7. Whenever \<open>checksec\<close> reports on an image, the \<open>RELRO\<close> value is 0, 2 or
  3; and when some line of the \<open>readelf\<close> output holds \<open>BIND_NOW\<close> and none holds
  \<open>GNU_RELRO\<close>, it is 0.
\<close>

theorem relro_downgrade:
  assumes "checksec s filename = Some r"
  shows "RELRO r \<in> {0, 2, 3} \<and>
         (\<forall>f. checksec_file s filename = Some f \<longrightarrow>
              (\<exists>l\<in>set (splitlines (readelf s f)). str_in ''BIND_NOW'' l) \<longrightarrow>
              (\<forall>l\<in>set (splitlines (readelf s f)). \<not> str_in ''GNU_RELRO'' l) \<longrightarrow>
              RELRO r = 0)"
proof -
  from assms obtain f where f: "checksec_file s filename = Some f"
    by (auto simp: checksec_def split: option.splits)
  define r0 where "r0 = foldl checksec_line \<lparr>RELRO = 0, CANARY = 0, NX = 1, PIE = 0, FORTIFY = 0\<rparr>
                       (splitlines (readelf s f))"
  from assms f have r: "r = (if RELRO r0 = 1 then r0\<lparr>RELRO := 0\<rparr> else r0)"
    by (auto simp: checksec_def r0_def Let_def split: if_splits)
  have v: "RELRO r0 = (if \<exists>l\<in>set (splitlines (readelf s f)). str_in ''GNU_RELRO'' l then 2 else 0)
             OR (if \<exists>l\<in>set (splitlines (readelf s f)). str_in ''BIND_NOW'' l then 1 else 0)"
    unfolding r0_def by (simp add: RELRO_foldl)
  have "RELRO r \<in> {0, 2, 3}"
    using r v by (auto split: if_splits)
  moreover have "RELRO r = 0"
    if "\<exists>l\<in>set (splitlines (readelf s f)). str_in ''BIND_NOW'' l"
      and "\<forall>l\<in>set (splitlines (readelf s f)). \<not> str_in ''GNU_RELRO'' l"
    using r v that by (auto split: if_splits)
  ultimately show ?thesis using f by auto
qed

lemma relro_session_lines:
  "splitlines (readelf relro_session ''/bin/prog'') =
     [''  Type: EXEC (Executable file)'', ''  GNU_STACK 0x0 0x0 0x0 0x0 0x0 RW 0x10'', '' 0x18 (BIND_NOW)'']"
  by (simp add: relro_session_def null_session_def splitlines_def is_linebreak_def)

lemma checksec_relro_session:
  "checksec relro_session None = Some \<lparr>RELRO = 0, CANARY = 0, NX = 1, PIE = 0, FORTIFY = 0\<rparr>"
proof -
  have f: "checksec_file relro_session None = Some ''/bin/prog''"
    by (simp add: checksec_file_def relro_session_def null_session_def)
  have e: "\<not> str_in ''Error:'' (readelf relro_session ''/bin/prog'')"
    by (simp add: relro_session_def null_session_def)
  show ?thesis
    by (simp add: checksec_def f e relro_session_lines checksec_line_def)
qed

text \<open>
  Witness for C7: an image with a \<open>BIND_NOW\<close> line and no \<open>GNU_RELRO\<close> line.
\<close>

theorem relro_downgrade_witness:
  "checksec relro_session None = Some \<lparr>RELRO = 0, CANARY = 0, NX = 1, PIE = 0, FORTIFY = 0\<rparr> \<and>
   checksec_file relro_session None = Some ''/bin/prog'' \<and>
   (\<exists>l\<in>set (splitlines (readelf relro_session ''/bin/prog'')). str_in ''BIND_NOW'' l) \<and>
   \<not> (\<exists>l\<in>set (splitlines (readelf relro_session ''/bin/prog'')). str_in ''GNU_RELRO'' l) \<and>
   RELRO \<lparr>RELRO = 0, CANARY = 0, NX = 1, PIE = 0, FORTIFY = 0\<rparr> \<in> {0, 2, 3} \<and>
   RELRO \<lparr>RELRO = 0, CANARY = 0, NX = 1, PIE = 0, FORTIFY = 0\<rparr> = 0"
proof -
  have f: "checksec_file relro_session None = Some ''/bin/prog''"
    by (simp add: checksec_file_def relro_session_def null_session_def)
  have b: "\<exists>l\<in>set (splitlines (readelf relro_session ''/bin/prog'')). str_in ''BIND_NOW'' l"
    by (simp add: relro_session_lines)
  have g: "\<forall>l\<in>set (splitlines (readelf relro_session ''/bin/prog'')). \<not> str_in ''GNU_RELRO'' l"
    by (simp add: relro_session_lines)
  from relro_downgrade [OF checksec_relro_session] f b g checksec_relro_session
  show ?thesis by simp
qed

lemma set_AList_update: "set (AList.update k v al) \<subseteq> insert (k, v) (set al)"
  by (induction al) (auto split: if_splits)

lemma elfheader_step_set:
  assumes "x \<in> set (elfheader_step base acc m)"
  shows "x \<in> set acc \<or> (\<not> fst m < fst (snd (snd m)) \<and> x = stored_header base m)"
proof (cases m)
  case (fields start en offset hname attr)
  show ?thesis
  proof (cases "start < offset")
    case True
    with assms fields show ?thesis by (simp add: elfheader_step_def)
  next
    case False
    with assms fields set_AList_update [of "strip hname" _ acc] show ?thesis
      by (auto simp: elfheader_step_def stored_header_def split: if_splits)
  qed
qed

lemma elfheader_fold_set:
  "x \<in> set (foldl (elfheader_step base) acc ms) \<Longrightarrow>
   x \<in> set acc \<or> (\<exists>m\<in>set ms. \<not> fst m < fst (snd (snd m)) \<and> x = stored_header base m)"
proof (induction ms arbitrary: acc)
  case Nil
  then show ?case by simp
next
  case (Cons m ms)
  from Cons.prems have "x \<in> set (foldl (elfheader_step base) (elfheader_step base acc m) ms)"
    by simp
  from Cons.IH [OF this] show ?case
    using elfheader_step_set [of x base acc m] by auto
qed

lemma elfheader_set:
  assumes "x \<in> set (elfheader s name)"
  shows "\<exists>ms. info_sections s = Some ms \<and>
           (\<exists>m\<in>set ms. \<not> fst m < fst (snd (snd m)) \<and> x = stored_header (elfbase s) m)"
proof (cases "info_sections s")
  case None
  with assms show ?thesis by (simp add: elfheader_def)
next
  case (Some ms)
  define elfinfo where "elfinfo = foldl (elfheader_step (elfbase s)) [] ms"
  have "x \<in> set elfinfo"
  proof (cases name)
    case None
    with assms Some show ?thesis by (simp add: elfheader_def elfinfo_def)
  next
    case (Some n)
    with assms \<open>info_sections s = Some ms\<close> show ?thesis
      by (auto simp: elfheader_def elfinfo_def Let_def split: option.splits dest: map_of_SomeD)
  qed
  with elfheader_fold_set [of x "elfbase s" "[]" ms] Some show ?thesis
    by (simp add: elfinfo_def)
qed

text \<open>
  Claim C2, amended. With \<open>B\<close> the runtime base (\<open>elfbase\<close>: the start of the first
  range of the binary, 0 when the process does not run), every section that \<open>elfheader\<close>
  returns comes from a section line whose start is not below its file offset; when the
  parsed start is below \<open>B\<close>, start and end are the parsed values plus \<open>B\<close>, otherwise
  they are the parsed values. No link-time base enters. For a parsed start that is not
  negative, the returned start and end are never below the parsed ones.
\<close>

theorem sections_rebased_by_base:
  assumes "(k, st, en, ty) \<in> set (elfheader s name)"
  shows "\<exists>ms. info_sections s = Some ms \<and>
           (\<exists>(start, end, offset, hname, attr)\<in>set ms.
              strip hname = k \<and> offset \<le> start \<and>
              (if start < elfbase s
               then st = start + elfbase s \<and> en = end + elfbase s
               else st = start \<and> en = end) \<and>
              (0 \<le> start \<longrightarrow> start \<le> st \<and> end \<le> en))"
proof -
  from elfheader_set [OF assms] obtain ms m where
    ms: "info_sections s = Some ms" and m: "m \<in> set ms" "\<not> fst m < fst (snd (snd m))"
    and x: "(k, st, en, ty) = stored_header (elfbase s) m"
    by blast
  obtain start e offset hname attr where f: "m = (start, e, offset, hname, attr)"
    by (cases m)
  have "strip hname = k \<and> offset \<le> start \<and>
              (if start < elfbase s
               then st = start + elfbase s \<and> en = e + elfbase s
               else st = start \<and> en = e) \<and>
              (0 \<le> start \<longrightarrow> start \<le> st \<and> e \<le> en)"
    using x m f by (auto simp: stored_header_def)
  with ms m f show ?thesis by blast
qed

lemma elfbase_pie_session: "elfbase pie_session = 0x5000"
  by (simp add: elfbase_def pie_session_def null_session_def truthy_int_def)

lemma strip_text: "strip ''.text'' = ''.text''" "strip ''.data'' = ''.data''"
  by (simp_all add: strip_def strip_chars_def is_space_def)

lemma elfheader_pie_session:
  "elfheader pie_session None =
     [(''.text'', 0x6200, 0x6300, ''code''), (''.data'', 0x6000, 0x6100, ''data'')]"
proof -
  have i: "info_sections pie_session = Some [(0x1200, 0x1300, 0x200, ''.text'', ''ALLOC LOAD READONLY CODE HAS_CONTENTS''),
                             (0x6000, 0x6100, 0x1000, ''.data'', ''ALLOC LOAD DATA HAS_CONTENTS'')]"
    by (simp add: pie_session_def null_session_def)
  have h: "htype_of ''ALLOC LOAD READONLY CODE HAS_CONTENTS'' = ''code''"
    "htype_of ''ALLOC LOAD DATA HAS_CONTENTS'' = ''data''"
    by (simp_all add: htype_of_def)
  show ?thesis
    by (simp add: elfheader_def i elfbase_pie_session elfheader_step_def strip_text h)
qed

text \<open>
  Counterexample to C2 as stated: with the base \<open>0x5000\<close>, \<open>.text\<close> (parsed at
  \<open>0x1200\<close>) moves by \<open>0x5000\<close> and \<open>.data\<close> (parsed at \<open>0x6000\<close>) does not move, so no
  single displacement \<open>B - L\<close> fits both sections.
\<close>

theorem sections_rebased_counterexample:
  "elfbase pie_session = 0x5000 \<and>
   info_sections pie_session =
     Some [(0x1200, 0x1300, 0x200, ''.text'', ''ALLOC LOAD READONLY CODE HAS_CONTENTS''),
           (0x6000, 0x6100, 0x1000, ''.data'', ''ALLOC LOAD DATA HAS_CONTENTS'')] \<and>
   elfheader pie_session None =
     [(''.text'', 0x6200, 0x6300, ''code''), (''.data'', 0x6000, 0x6100, ''data'')] \<and>
   (0x6200 :: int) - 0x1200 \<noteq> 0x6000 - 0x6000"
  using elfbase_pie_session elfheader_pie_session
  by (simp add: pie_session_def null_session_def)

text \<open>
  Witness for C2: the \<open>.text\<close> section of the same image.
\<close>

theorem sections_rebased_by_base_witness:
  "(''.text'', 0x6200, 0x6300, ''code'') \<in> set (elfheader pie_session None) \<and>
   (\<exists>ms. info_sections pie_session = Some ms \<and>
           (\<exists>(start, end, offset, hname, attr)\<in>set ms.
              strip hname = ''.text'' \<and> offset \<le> start \<and>
              (if start < elfbase pie_session
               then 0x6200 = start + elfbase pie_session \<and> 0x6300 = end + elfbase pie_session
               else 0x6200 = start \<and> 0x6300 = end) \<and>
              (0 \<le> start \<longrightarrow> start \<le> 0x6200 \<and> end \<le> 0x6300)))"
proof -
  have h: "(''.text'', 0x6200, 0x6300, ''code'') \<in> set (elfheader pie_session None)"
    by (simp add: elfheader_pie_session)
  from sections_rebased_by_base [OF h] h show ?thesis by simp
qed

lemma get_function_args_64_ignores_argc:
  "get_function_args_64 s code argc = get_function_args_64 s code None"
  by (simp add: get_function_args_64_def)

lemma get_function_args_i386:
  assumes "getregs s \<noteq> None"
    and "getreg s ''pc'' = Some pc"
    and "truthy_list (prev_inst s pc 12)"
    and "build_code ''call'' (rev (the (prev_inst s pc 12))) [] = Inr code"
    and "str_in ''i386'' (getarch s)"
    and "\<not> str_in ''aarch64'' (getarch s)"
  shows "get_function_args s argc = get_function_args_32 s code argc"
  using assms by (auto simp: get_function_args_def Let_def)

lemma get_function_args_32_forced:
  assumes "getreg s ''sp'' = Some sp" and "n \<noteq> 0"
  shows "get_function_args_32 s code (Some n) =
           Inr (map (\<lambda>i. opt_val (read_int s (sp + int i * 4) 4)) [0..<nat (min n 6)])"
  using assms by (auto simp: get_function_args_32_def Let_def)

text \<open>
  The i386 convention honours a forced count. With a window that is built without error
  and a readable stack pointer, a count \<open>n\<close> other than 0 bypasses the inference:
  \<open>get_function_args\<close> returns the first \<open>min(n, 6)\<close> stack words, read at \<open>sp\<close>,
  \<open>sp + 4\<close>, ... (none when \<open>n\<close> is negative); the answers of the regular expressions do
  not enter the result. On every architecture a count of 0 is treated as no count.
\<close>

lemma forced_count_i386:
  assumes "getregs s \<noteq> None"
    and "getreg s ''pc'' = Some pc"
    and "truthy_list (prev_inst s pc 12)"
    and "build_code ''call'' (rev (the (prev_inst s pc 12))) [] = Inr code"
    and "str_in ''i386'' (getarch s)"
    and "\<not> str_in ''aarch64'' (getarch s)"
    and "getreg s ''sp'' = Some sp"
    and "n \<noteq> 0"
  shows "get_function_args s (Some n) =
           Inr (map (\<lambda>i. opt_val (read_int s (sp + int i * 4) 4)) [0..<nat (min n 6)])"
  using get_function_args_i386 [OF assms(1-6)] get_function_args_32_forced [OF assms(7,8)]
  by simp

lemma i386_session_fields:
  "getregs i386_session \<noteq> None"
  "getreg i386_session ''pc'' = Some 0x8048400"
  "getreg i386_session ''sp'' = Some 0xffffd000"
  "prev_inst i386_session 0x8048400 12 = Some [(0x80483f9, CHR 0x09 # ''mov    DWORD PTR [esp],0x1'')]"
  "read_int i386_session a 4 = Some (a - 0xffffd000 + 0x100)"
  by (simp_all add: i386_session_def null_session_def)

lemma i386_session_arch:
  "str_in ''i386'' (getarch i386_session)" "\<not> str_in ''aarch64'' (getarch i386_session)"
  by (simp_all add: i386_session_def null_session_def)

lemma i386_session_window: "truthy_list (prev_inst i386_session 0x8048400 12)"
  by (simp add: i386_session_fields truthy_list_def)

lemma i386_session_code:
  "build_code ''call'' (rev (the (prev_inst i386_session 0x8048400 12))) [] =
     Inr (''0x80483f9:'' @ [CHR 0x09] @ ''mov    DWORD PTR [esp],0x1'' @ [CHR 0x0A])"
proof -
  have h1: "hex_fmt 0x80483f9 = ''0x80483f9''"
    by (simp add: hex_fmt_def)
  have h2: "strip (CHR 0x09 # ''mov    DWORD PTR [esp],0x1'') = ''mov    DWORD PTR [esp],0x1''"
    by (simp add: strip_def strip_chars_def is_space_def)
  have h3: "split_ws ''mov    DWORD PTR [esp],0x1'' = [''mov'', ''DWORD'', ''PTR'', ''[esp],0x1'']"
    by (simp add: split_ws_def is_space_def)
  have h4: "\<not> str_in ''call'' ''mov''"
    by simp
  show ?thesis
    by (simp add: i386_session_fields h1 h2 h3 h4 del: str_in.simps)
qed

lemma upt_6: "[0..<6] = [0, 1, 2, 3, 4, 5]" "[0..<3] = [0, 1, 2]"
  by (simp_all add: upt_rec)

lemma i386_session_forced:
  "get_function_args i386_session (Some 3) = Inr [PInt 0x100, PInt 0x104, PInt 0x108]"
  "get_function_args i386_session (Some 7) =
     Inr [PInt 0x100, PInt 0x104, PInt 0x108, PInt 0x10c, PInt 0x110, PInt 0x114]"
  using forced_count_i386 [OF i386_session_fields(1,2) i386_session_window i386_session_code
      i386_session_arch i386_session_fields(3), of 3]
    forced_count_i386 [OF i386_session_fields(1,2) i386_session_window i386_session_code
      i386_session_arch i386_session_fields(3), of 7]
  by (simp_all add: i386_session_fields opt_val_def upt_6)

lemma get_function_args_zero_count:
  "get_function_args s (Some 0) = get_function_args s None"
proof -
  have "get_function_args_32 s code (Some 0) = get_function_args_32 s code None"
    "get_function_args_64 s code (Some 0) = get_function_args_64 s code None"
    "get_function_args_arm s code (Some 0) = get_function_args_arm s code None"
    "get_function_args_aarch64 s code (Some 0) = get_function_args_aarch64 s code None"
    "get_function_args_ppc s code (Some 0) = get_function_args_ppc s code None" for code
    by (simp_all add: get_function_args_32_def get_function_args_64_def
        get_function_args_arm_def get_function_args_aarch64_def get_function_args_ppc_def)
  then show ?thesis
    by (simp add: get_function_args_def Let_def split: option.splits sum.splits)
qed

lemma x64_session_fields:
  "getregs x64_session =
     Some [''rdi'' \<mapsto> 1, ''rsi'' \<mapsto> 2, ''rdx'' \<mapsto> 3, ''rcx'' \<mapsto> 4, ''r8'' \<mapsto> 5, ''r9'' \<mapsto> 6]"
  "getreg x64_session ''pc'' = Some 0x401136"
  "prev_inst x64_session 0x401136 12 = Some [(0x401134, CHR 0x09 # ''xor    eax,eax'')]"
  "re_findall2 x64_session RE_operands_x86 t = [(''xor'', ''eax'')]"
  "re_findall1 x64_session p t = []"
  by (simp_all add: x64_session_def null_session_def)

lemma x64_session_arch:
  "\<not> str_in ''aarch64'' (getarch x64_session)" "\<not> str_in ''i386'' (getarch x64_session)"
  "str_in ''64'' (getarch x64_session)"
  by (simp_all add: x64_session_def null_session_def)

lemma x64_session_code:
  "build_code ''call'' (rev (the (prev_inst x64_session 0x401136 12))) [] =
     Inr (''0x401134:'' @ [CHR 0x09] @ ''xor    eax,eax'' @ [CHR 0x0A])"
proof -
  have h1: "hex_fmt 0x401134 = ''0x401134''"
    by (simp add: hex_fmt_def)
  have h2: "strip (CHR 0x09 # ''xor    eax,eax'') = ''xor    eax,eax''"
    by (simp add: strip_def strip_chars_def is_space_def)
  have h3: "split_ws ''xor    eax,eax'' = [''xor'', ''eax,eax'']"
    by (simp add: split_ws_def is_space_def)
  have h4: "\<not> str_in ''call'' ''xor''"
    by simp
  show ?thesis
    by (simp add: x64_session_fields h1 h2 h3 h4 del: str_in.simps)
qed

lemma get_function_args_x64_session:
  "get_function_args x64_session argc =
     get_function_args_64 x64_session (''0x401134:'' @ [CHR 0x09] @ ''xor    eax,eax'' @ [CHR 0x0A]) argc"
proof -
  have "truthy_list (prev_inst x64_session 0x401136 12)"
    by (simp add: x64_session_fields truthy_list_def)
  then show ?thesis
    using x64_session_fields(1,2) x64_session_arch x64_session_code
    by (simp add: get_function_args_def del: str_in.simps)
qed

text \<open>
  Claim C3 fails on the code: \<open>_get_function_args_64\<close>, \<open>_get_function_args_arm\<close> and
  \<open>_get_function_args_aarch64\<close> overwrite \<open>argc\<close> with 0 and always infer, so a forced
  count never enters their result. On x86-64, with a window that names no argument
  register, a forced count of 3 returns no value, where the convention gives the three
  values of \<open>rdi\<close>, \<open>rsi\<close> and \<open>rdx\<close>.
\<close>

theorem forced_count_discarded:
  "get_function_args_64 s code (Some n) = get_function_args_64 s code None \<and>
   get_function_args_arm s code (Some n) = get_function_args_arm s code None \<and>
   get_function_args_aarch64 s code (Some n) = get_function_args_aarch64 s code None \<and>
   get_function_args x64_session (Some 3) = Inr [] \<and>
   args_of_regs x64_session [''rdi'', ''rsi'', ''rdx'', ''rcx'', ''r8'', ''r9''] 3 =
     Inr [PInt 1, PInt 2, PInt 3]"
proof -
  have a: "get_function_args_64 x64_session c (Some 3) = Inr []" for c
    by (simp add: get_function_args_64_def x64_session_fields guess_argc_def count_uniq_def
        args_of_regs_def)
  have b: "args_of_regs x64_session [''rdi'', ''rsi'', ''rdx'', ''rcx'', ''r8'', ''r9''] 3 =
     Inr [PInt 1, PInt 2, PInt 3]"
    by (simp add: args_of_regs_def x64_session_fields numeral_3_eq_3)
  show ?thesis
    using a b
    by (simp add: get_function_args_x64_session get_function_args_64_def
        get_function_args_arm_def get_function_args_aarch64_def)
qed

lemma ppc_session_fields:
  "getregs ppc_session \<noteq> None"
  "getreg ppc_session ''pc'' = Some 0x10000400"
  "prev_inst ppc_session 0x10000400 12 = Some [(0x100003fc, CHR 0x09 # ''li      r3,1'')]"
  by (simp_all add: ppc_session_def null_session_def)

lemma ppc_session_arch:
  "\<not> str_in ''aarch64'' (getarch ppc_session)" "\<not> str_in ''i386'' (getarch ppc_session)"
  "\<not> str_in ''64'' (getarch ppc_session)" "\<not> str_in ''arm'' (getarch ppc_session)"
  "str_in ''powerpc'' (getarch ppc_session)"
  by (simp_all add: ppc_session_def null_session_def)

lemma ppc_session_code:
  "build_code ''call'' (rev (the (prev_inst ppc_session 0x10000400 12))) [] =
     Inr (''0x100003fc:'' @ [CHR 0x09] @ ''li      r3,1'' @ [CHR 0x0A])"
proof -
  have h1: "hex_fmt 0x100003fc = ''0x100003fc''"
    by (simp add: hex_fmt_def)
  have h2: "strip (CHR 0x09 # ''li      r3,1'') = ''li      r3,1''"
    by (simp add: strip_def strip_chars_def is_space_def)
  have h3: "split_ws ''li      r3,1'' = [''li'', ''r3,1'']"
    by (simp add: split_ws_def is_space_def)
  have h4: "\<not> str_in ''call'' ''li''"
    by simp
  show ?thesis
    by (simp add: ppc_session_fields h1 h2 h3 h4 del: str_in.simps)
qed

text \<open>
  Claim C4 fails on the code: \<open>_get_function_args_ppc\<close> raises \<open>NameError\<close> for every
  instruction window, and so does \<open>get_function_args\<close> on a 32-bit PowerPC target; no
  list is returned.
\<close>

theorem powerpc_inference_raises:
  "get_function_args_ppc s code argc = Inl NameError \<and>
   get_function_args ppc_session None = Inl NameError"
proof -
  have "truthy_list (prev_inst ppc_session 0x10000400 12)"
    by (simp add: ppc_session_fields truthy_list_def)
  then show ?thesis
    using ppc_session_fields(1,2) ppc_session_arch ppc_session_code
    by (simp add: get_function_args_def get_function_args_ppc_def del: str_in.simps)
qed

lemma get_vmrange_known:
  "get_vmrange s value None =
     (if known_ranges s \<noteq> [] then find (in_range value) (known_ranges s)
      else if readable s value then
        Some (value AND 0xfffffffffffff000, (value AND 0xfffffffffffff000) + 0x1000, ''rwx'', ''unknown'')
      else None)"
proof -
  have "(\<lambda>(start, end, perm, mapname). start \<le> value \<and> end > value) = in_range value"
    by (auto simp: in_range_def fun_eq_iff)
  then show ?thesis
    by (auto simp: get_vmrange_def known_ranges_def truthy_list_def Let_def split: option.splits)
qed

text \<open>
  Claim C8, amended. A value that lies in none of the known memory ranges is classified
  as \<open>"value"\<close> with an empty payload, provided that some range is known or that one
  byte at the value cannot be read.
\<close>

theorem outside_ranges_is_value:
  assumes "\<forall>r\<in>set (known_ranges s). \<not> in_range value r"
    and "known_ranges s \<noteq> [] \<or> \<not> readable s value"
  shows "examine_mem_value s (Some value) = Inr (PStr (to_hex s value), PStr ''value'', PStr [])"
proof -
  from assms(1) have "find (in_range value) (known_ranges s) = None"
    by (simp add: find_None_iff)
  with assms(2) have "get_vmrange s value None = None"
    by (auto simp: get_vmrange_known)
  then show ?thesis
    by (simp add: examine_mem_value_def is_address_def)
qed

lemma probe_session_fields:
  "get_vmmap probe_session name = Some []"
  "readable probe_session a"
  "read_int probe_session a n = Some 7"
  "is_printable probe_session x n = False"
  "to_hex probe_session = hex_fmt"
  by (simp_all add: probe_session_def null_session_def)

text \<open>
  Counterexample to C8 as stated: no range is known and the memory at \<open>0x1000\<close> can be
  read; \<open>get_vmrange\<close> then makes up a writable page around the value, and the value is
  classified as \<open>"data"\<close>.
\<close>

theorem outside_ranges_counterexample:
  "known_ranges probe_session = [] \<and>
   examine_mem_value probe_session (Some 0x1000) = Inr (PStr ''0x1000'', PStr ''data'', PInt 7)"
proof -
  have r: "get_vmrange probe_session 0x1000 None = Some (0x1000, 0x2000, ''rwx'', ''unknown'')"
    by (simp add: get_vmrange_def probe_session_fields truthy_list_def)
  have d: "examine_data probe_session 0x1000 = Inr (PInt 7)"
    by (simp add: examine_data_def probe_session_fields)
  have h: "hex_fmt 0x1000 = ''0x1000''"
    by (simp add: hex_fmt_def)
  show ?thesis
    by (simp add: known_ranges_def examine_mem_value_def is_address_def is_writable_def r d h
        probe_session_fields)
qed

lemma mapped_session_fields:
  "get_vmmap mapped_session None = Some [(0x400000, 0x401000, ''r-xp'', ''/bin/prog'')]"
  "to_hex mapped_session = hex_fmt"
  by (simp_all add: mapped_session_def null_session_def)

text \<open>
  Witness for C8: one known range, and a value below it.
\<close>

theorem outside_ranges_is_value_witness:
  "known_ranges mapped_session = [(0x400000, 0x401000, ''r-xp'', ''/bin/prog'')] \<and>
   \<not> in_range 0x1000 (0x400000, 0x401000, ''r-xp'', ''/bin/prog'') \<and>
   examine_mem_value mapped_session (Some 0x1000) = Inr (PStr ''0x1000'', PStr ''value'', PStr [])"
proof -
  have k: "known_ranges mapped_session = [(0x400000, 0x401000, ''r-xp'', ''/bin/prog'')]"
    by (simp add: known_ranges_def mapped_session_fields)
  have n: "\<not> in_range 0x1000 (0x400000, 0x401000, ''r-xp'', ''/bin/prog'')"
    by (simp add: in_range_def)
  have h: "hex_fmt 0x1000 = ''0x1000''"
    by (simp add: hex_fmt_def)
  have "examine_mem_value mapped_session (Some 0x1000) = Inr (PStr ''0x1000'', PStr ''value'', PStr [])"
    using outside_ranges_is_value [of mapped_session "0x1000"] k n h
    by (simp add: mapped_session_fields)
  with k n show ?thesis by simp
qed

lemma examine_mem_value_first:
  assumes "examine_mem_value s (Some a) = Inr (v, t, vn)" and "vn \<noteq> PNone"
  shows "v = PStr (to_hex s a)"
  using assms
  by (auto simp: examine_mem_value_def code_entry_def rodata_entry_def Let_def
      split: if_splits sum.splits pyval.splits option.splits list.splits prod.splits)


declare emr_loop.simps [simp del]

lemma mark_truncated_length:
  "result \<noteq> [] \<Longrightarrow> \<exists>chain. mark_truncated result = Inr chain \<and> length chain = length result"
  by (auto simp: mark_truncated_def split: prod.splits)

lemma emr_loop_bounded:
  assumes fin: "finite A"
    and noerr: "\<And>a. a \<in> A \<Longrightarrow> \<exists>cur. examine_mem_value s (Some a) = Inr cur"
    and closed: "\<And>a v t vn n. a \<in> A \<Longrightarrow> examine_mem_value s (Some a) = Inr (v, t, vn) \<Longrightarrow>
                   vn \<noteq> PNone \<Longrightarrow> to_int s vn = Some n \<Longrightarrow> n \<in> A"
    and rt: "\<And>a. a \<in> A \<Longrightarrow> to_int s (PStr (to_hex s a)) = Some a"
    and depth: "0 \<le> depth"
  shows "a \<in> A \<Longrightarrow> examine_mem_value s (Some a) = Inr (v, t, vn) \<Longrightarrow>
         map (\<lambda>(v, _, _). to_int s v) result = map Some xs \<Longrightarrow>
         distinct xs \<Longrightarrow> set xs \<subseteq> A \<Longrightarrow> a \<notin> set xs \<Longrightarrow>
         \<exists>chain. emr_loop s depth (v, t, vn) result = Inr chain \<and>
                 length chain \<le> card A \<and>
                 int (length chain) \<le> max (int (length result)) (depth + 1) \<and>
                 length result \<le> length chain \<and>
                 (vn \<noteq> PNone \<and> int (length result) \<le> depth \<longrightarrow> length result < length chain)"
proof (induction "card A - length xs" arbitrary: a xs v t vn result rule: less_induct)
  case less
  have len: "length result = length xs"
    using less.prems(3) by (metis length_map)
  have "card (insert a (set xs)) \<le> card A"
    using less.prems(1,5) fin by (intro card_mono) auto
  then have room: "length xs < card A"
    using less.prems(4,6) by (simp add: distinct_card)
  show ?case
  proof (cases "vn = PNone")
    case True
    then show ?thesis
      using len room by (subst emr_loop.simps) simp
  next
    case vn: False
    show ?thesis
    proof (cases "int (length result) > depth")
      case True
      then have "result \<noteq> []"
        using depth by auto
      from mark_truncated_length [OF this] obtain chain where
        "mark_truncated result = Inr chain" "length chain = length result"
        by blast
      then show ?thesis
        using vn True len room by (subst emr_loop.simps) simp
    next
      case within: False
      define result' where "result' = result @ [(v, t, vn)]"
      have v: "v = PStr (to_hex s a)"
        using examine_mem_value_first [OF less.prems(2) vn] .
      have va: "to_int s v = Some a"
        using v rt [OF less.prems(1)] by simp
      have ints: "map (\<lambda>(v, _, _). to_int s v) result' = map Some (xs @ [a])"
        using less.prems(3) va by (simp add: result'_def)
      have len': "length result' = length xs + 1"
        using len by (simp add: result'_def)
      show ?thesis
      proof (cases "v = vn \<or> to_int s v = to_int s vn \<or> to_int s vn = None \<or>
                    to_int s vn \<in> set (map (\<lambda>(v, _, _). to_int s v) result')")
        case True
        then have "emr_loop s depth (v, t, vn) result = Inr result'"
          using vn within by (subst emr_loop.simps) (auto simp: result'_def Let_def)
        then show ?thesis
          using len len' room within by simp
      next
        case False
        then obtain n where n: "to_int s vn = Some n"
          by auto
        have nA: "n \<in> A"
          using closed [OF less.prems(1,2) vn n] .
        from noerr [OF nA] obtain v' t' vn' where nxt: "examine_mem_value s (Some n) = Inr (v', t', vn')"
          by (metis prod_cases3)
        have fresh: "n \<notin> set (xs @ [a])"
          using False n ints by auto
        have step: "emr_loop s depth (v, t, vn) result = emr_loop s depth (v', t', vn') result'"
          using vn within False n nxt by (subst emr_loop.simps) (auto simp: result'_def Let_def)
        have "card A - length (xs @ [a]) < card A - length xs"
          using room by simp
        from less.hyps [OF this nA nxt ints _ _ fresh]
        obtain chain where c: "emr_loop s depth (v', t', vn') result' = Inr chain"
          "length chain \<le> card A"
          "int (length chain) \<le> max (int (length result')) (depth + 1)"
          "length result' \<le> length chain"
          using less.prems(1,4,5,6) by auto
        show ?thesis
          using step c len len' within by auto
      qed
    qed
  qed
qed

lemma cyclic_chain_truncated:
  assumes dist: "distinct as"
    and cyc: "\<forall>i<length as. \<exists>v t vn. examine_mem_value s (Some (as ! i)) = Inr (v, t, vn) \<and>
                 vn \<noteq> PNone \<and> to_int s vn = Some (as ! (Suc i mod length as))"
    and rt: "\<forall>a\<in>set as. to_int s (PStr (to_hex s a)) = Some a"
    and d: "1 \<le> d" "d + 1 < int (length as)"
    and e: "examine_mem_value s (Some (as ! 0)) = Inr cur"
  shows "\<exists>chain. emr_loop s d cur [] = Inr chain \<and> int (length chain) = d + 1 \<and>
           snd (snd (last chain)) = PStr ''--> ...''"
proof -
  define E where "E = (\<lambda>i. projr (examine_mem_value s (Some (as ! i))))"
  have E: "\<exists>t vn. examine_mem_value s (Some (as ! i)) = Inr (E i) \<and>
             E i = (PStr (to_hex s (as ! i)), t, vn) \<and> vn \<noteq> PNone \<and>
             to_int s vn = Some (as ! (Suc i mod length as))"
    if "i < length as" for i
  proof -
    from cyc that obtain v t vn where
      x: "examine_mem_value s (Some (as ! i)) = Inr (v, t, vn)" "vn \<noteq> PNone"
      "to_int s vn = Some (as ! (Suc i mod length as))"
      by blast
    from examine_mem_value_first [OF x(1,2)] x show ?thesis
      by (simp add: E_def)
  qed
  have ints: "map (\<lambda>(v, _, _). to_int s v) (map E [0..<k]) = map (\<lambda>i. Some (as ! i)) [0..<k]"
    if "k \<le> length as" for k
  proof (rule nth_equalityI)
    show "length (map (\<lambda>(v, _, _). to_int s v) (map E [0..<k])) = length (map (\<lambda>i. Some (as ! i)) [0..<k])"
      by simp
    fix i
    assume "i < length (map (\<lambda>(v, _, _). to_int s v) (map E [0..<k]))"
    then have i: "i < k" by simp
    with that have "i < length as" by simp
    from E [OF this] rt \<open>i < length as\<close> have "(\<lambda>(v, _, _). to_int s v) (E i) = Some (as ! i)"
      by auto
    with i show "map (\<lambda>(v, _, _). to_int s v) (map E [0..<k]) ! i = map (\<lambda>i. Some (as ! i)) [0..<k] ! i"
      by simp
  qed
  have loop: "emr_loop s d (E k) (map E [0..<k]) = mark_truncated (map E [0..<nat d + 1])"
    if "k \<le> nat d + 1" for k
    using that
  proof (induction "nat d + 1 - k" arbitrary: k)
    case 0
    then have k: "k = nat d + 1" by simp
    with d have "k < length as" by linarith
    from E [OF this] obtain t vn where x: "E k = (PStr (to_hex s (as ! k)), t, vn)" "vn \<noteq> PNone"
      by blast
    have "int (length (map E [0..<k])) > d"
      using k d by simp
    then show ?case
      using x k by (simp add: emr_loop.simps)
  next
    case (Suc m)
    then have k: "k \<le> nat d" by simp
    with d have kl: "k < length as" "Suc k < length as" by linarith+
    from E [OF kl(1)] obtain t vn where
      x: "E k = (PStr (to_hex s (as ! k)), t, vn)" "vn \<noteq> PNone"
      "to_int s vn = Some (as ! Suc k)"
      using kl(2) by auto
    have v: "to_int s (PStr (to_hex s (as ! k))) = Some (as ! k)"
      using rt kl(1) by simp
    have ne: "as ! k \<noteq> as ! Suc k"
      using dist kl by (simp add: nth_eq_iff_index_eq)
    have within: "\<not> int (length (map E [0..<k])) > d"
      using k d by simp
    have res: "map E [0..<k] @ [E k] = map E [0..<Suc k]"
      by simp
    have "Some (as ! Suc k) \<notin> set (map (\<lambda>i. Some (as ! i)) [0..<Suc k])"
      using dist kl by (auto simp: nth_eq_iff_index_eq)
    then have fresh: "Some (as ! Suc k) \<notin> set (map (\<lambda>(v, _, _). to_int s v) (map E [0..<Suc k]))"
      using ints [of "Suc k"] kl by simp
    from E [OF kl(2)] have nxt: "examine_mem_value s (Some (as ! Suc k)) = Inr (E (Suc k))"
      by blast
    have "emr_loop s d (E k) (map E [0..<k]) = emr_loop s d (E (Suc k)) (map E [0..<Suc k])"
      unfolding x(1)
      apply (subst emr_loop.simps)
      using x(2,3) v ne within fresh nxt
      apply (simp only: Let_def x(1) [symmetric] res)
      apply (auto simp: x(1))
      done
    also have "\<dots> = mark_truncated (map E [0..<nat d + 1])"
      using Suc.hyps(1) [of "Suc k"] Suc.hyps(2) k by simp
    finally show ?case .
  qed
  have "0 < length as"
    using d by linarith
  from E [OF this] e have cur: "cur = E 0"
    by auto
  have "emr_loop s d cur [] = mark_truncated (map E [0..<nat d + 1])"
    using loop [of 0] cur by simp
  moreover obtain v t vn where l: "last (map E [0..<nat d + 1]) = (v, t, vn)"
    by (metis prod_cases3)
  ultimately have "emr_loop s d cur [] = Inr (butlast (map E [0..<nat d + 1]) @ [(v, t, PStr ''--> ...'')])"
    by (simp add: mark_truncated_def)
  moreover have "int (length (butlast (map E [0..<nat d + 1]) @ [(v, t, PStr ''--> ...'')])) = d + 1"
    using d by simp
  ultimately show ?thesis
    by (intro exI [of _ "butlast (map E [0..<nat d + 1]) @ [(v, t, PStr ''--> ...'')]"]) simp
qed

text \<open>
  Claim C6. Let \<open>as\<close> be a cyclic pointer structure: examining each address yields a
  payload that \<open>to_int\<close> reads as the next address, the last one leading back to the
  first, and \<open>to_int\<close> reads what \<open>to_hex\<close> prints of these addresses. Then
  \<open>examine_mem_reference\<close> returns from the first address, with a chain of at least one
  and at most \<open>length as\<close> entries and of at most \<open>depth + 1\<close> entries (a \<open>depth\<close> of 0
  or less stands for \<open>0xffffffff\<close>). A value that is its own pointer (one address) gives
  a chain of exactly one entry. When the addresses are distinct and more than
  \<open>depth + 1\<close>, the bound is hit: the chain has \<open>depth + 1\<close> entries and the payload of
  the last one is the mark \<open>"--> ..."\<close>.
\<close>

theorem cyclic_chain_bounded:
  assumes "as \<noteq> []"
    and cyc: "\<forall>i<length as. \<exists>v t vn. examine_mem_value s (Some (as ! i)) = Inr (v, t, vn) \<and>
                 vn \<noteq> PNone \<and> to_int s vn = Some (as ! (Suc i mod length as))"
    and rt: "\<forall>a\<in>set as. to_int s (PStr (to_hex s a)) = Some a"
  shows "\<exists>chain. examine_mem_reference s (Some (as ! 0)) depth = Inr chain \<and>
           1 \<le> length chain \<and> length chain \<le> length as \<and>
           int (length chain) \<le> (if depth \<le> 0 then 0xffffffff else depth) + 1 \<and>
           (length as = 1 \<longrightarrow> length chain = 1) \<and>
           (distinct as \<and> (if depth \<le> 0 then 0xffffffff else depth) + 1 < int (length as) \<longrightarrow>
              int (length chain) = (if depth \<le> 0 then 0xffffffff else depth) + 1 \<and>
              snd (snd (last chain)) = PStr ''--> ...'')"
proof -
  define d where "d = (if depth \<le> 0 then 0xffffffff else depth)"
  have d: "0 \<le> d" "1 \<le> d"
    by (simp_all add: d_def)
  have noerr: "\<exists>cur. examine_mem_value s (Some a) = Inr cur" if "a \<in> set as" for a
    using that cyc by (metis in_set_conv_nth)
  have closed: "n \<in> set as"
    if "a \<in> set as" "examine_mem_value s (Some a) = Inr (v, t, vn)" "vn \<noteq> PNone" "to_int s vn = Some n"
    for a v t vn n
  proof -
    from that(1) obtain i where i: "i < length as" "as ! i = a"
      by (auto simp: in_set_conv_nth)
    with cyc that(2,4) have "n = as ! (Suc i mod length as)"
      by fastforce
    moreover have "Suc i mod length as < length as"
      using assms(1) by simp
    ultimately show ?thesis by simp
  qed
  have rt': "to_int s (PStr (to_hex s a)) = Some a" if "a \<in> set as" for a
    using that rt by simp
  have first: "as ! 0 \<in> set as"
    using assms(1) by simp
  from cyc assms(1) obtain v t vn where
    e: "examine_mem_value s (Some (as ! 0)) = Inr (v, t, vn)" and vn: "vn \<noteq> PNone"
    by (metis length_greater_0_conv)
  have "\<exists>chain. emr_loop s d (v, t, vn) [] = Inr chain \<and>
                 length chain \<le> card (set as) \<and>
                 int (length chain) \<le> max (int (length ([] :: entry list))) (d + 1) \<and>
                 length ([] :: entry list) \<le> length chain \<and>
                 (vn \<noteq> PNone \<and> int (length ([] :: entry list)) \<le> d \<longrightarrow>
                    length ([] :: entry list) < length chain)"
  proof (rule emr_loop_bounded [where A = "set as" and a = "as ! 0" and xs = "[]"])
    show "finite (set as)" by simp
    show "\<exists>cur. examine_mem_value s (Some a) = Inr cur" if "a \<in> set as" for a
      using that by (rule noerr)
    show "n \<in> set as"
      if "a \<in> set as" "examine_mem_value s (Some a) = Inr (v, t, vn)" "vn \<noteq> PNone" "to_int s vn = Some n"
      for a v t vn n
      using that by (rule closed)
    show "to_int s (PStr (to_hex s a)) = Some a" if "a \<in> set as" for a
      using that by (rule rt')
    show "0 \<le> d" by (rule d(1))
    show "as ! 0 \<in> set as" by (rule first)
    show "examine_mem_value s (Some (as ! 0)) = Inr (v, t, vn)" by (rule e)
  qed simp_all
  then obtain chain where c: "emr_loop s d (v, t, vn) [] = Inr chain"
    "length chain \<le> card (set as)" "int (length chain) \<le> max 0 (d + 1)" "0 < length chain"
    using vn d by auto
  have r: "examine_mem_reference s (Some (as ! 0)) depth = Inr chain"
    using e c(1) by (simp add: examine_mem_reference_def d_def)
  have u: "length chain \<le> length as"
    using c(2) card_length [of as] by linarith
  have l: "1 \<le> length chain"
    using c(4) by linarith
  have b: "int (length chain) \<le> (if depth \<le> 0 then 0xffffffff else depth) + 1"
    using c(3) d unfolding d_def by linarith
  show ?thesis
  proof (intro exI conjI impI)
    show "examine_mem_reference s (Some (as ! 0)) depth = Inr chain" by (rule r)
    show "1 \<le> length chain" by (rule l)
    show "length chain \<le> length as" by (rule u)
    show "int (length chain) \<le> (if depth \<le> 0 then 0xffffffff else depth) + 1" by (rule b)
    show "length chain = 1" if "length as = 1"
      using that u l by linarith
    show "int (length chain) = (if depth \<le> 0 then 0xffffffff else depth) + 1"
      and "snd (snd (last chain)) = PStr ''--> ...''"
      if "distinct as \<and> (if depth \<le> 0 then 0xffffffff else depth) + 1 < int (length as)"
    proof -
      from that have "distinct as" "d + 1 < int (length as)"
        by (simp_all add: d_def)
      from cyclic_chain_truncated [OF this(1) cyc rt d(2) this(2) e] c(1)
      have "int (length chain) = d + 1 \<and> snd (snd (last chain)) = PStr ''--> ...''"
        by auto
      then show "int (length chain) = (if depth \<le> 0 then 0xffffffff else depth) + 1"
        and "snd (snd (last chain)) = PStr ''--> ...''"
        by (simp_all add: d_def)
    qed
  qed
qed

lemma cycle_session_fields:
  "get_vmmap cycle_session None = Some [(0x601000, 0x602000, ''rw-p'', ''/bin/prog'')]"
  "get_vmmap cycle_session (Some ''heap'') = Some []"
  "read_int cycle_session 0x601000 n = Some 0x601008"
  "read_int cycle_session 0x601008 n = Some 0x601010"
  "read_int cycle_session 0x601010 n = Some 0x601000"
  "is_printable cycle_session x n = False"
  "to_hex cycle_session = hex_fmt"
  "to_int cycle_session = hex_to_int"
  by (simp_all add: cycle_session_def null_session_def)

lemma cycle_session_hex:
  "hex_fmt 0x601000 = ''0x601000''" "hex_fmt 0x601008 = ''0x601008''" "hex_fmt 0x601010 = ''0x601010''"
  "hex_to_int (PStr ''0x601000'') = Some 0x601000" "hex_to_int (PStr ''0x601008'') = Some 0x601008"
  "hex_to_int (PStr ''0x601010'') = Some 0x601010"
  "hex_to_int (PInt n) = Some n"
  by (simp_all add: hex_fmt_def hex_to_int_def)

lemma cycle_session_values:
  "examine_mem_value cycle_session (Some 0x601000) = Inr (PStr ''0x601000'', PStr ''data'', PInt 0x601008)"
  "examine_mem_value cycle_session (Some 0x601008) = Inr (PStr ''0x601008'', PStr ''data'', PInt 0x601010)"
  "examine_mem_value cycle_session (Some 0x601010) = Inr (PStr ''0x601010'', PStr ''data'', PInt 0x601000)"
proof -
  have r: "get_vmrange cycle_session 0x601000 None = Some (0x601000, 0x602000, ''rw-p'', ''/bin/prog'')"
    "get_vmrange cycle_session 0x601008 None = Some (0x601000, 0x602000, ''rw-p'', ''/bin/prog'')"
    "get_vmrange cycle_session 0x601010 None = Some (0x601000, 0x602000, ''rw-p'', ''/bin/prog'')"
    by (simp_all add: get_vmrange_def cycle_session_fields truthy_list_def)
  have d: "examine_data cycle_session 0x601000 = Inr (PInt 0x601008)"
    "examine_data cycle_session 0x601008 = Inr (PInt 0x601010)"
    "examine_data cycle_session 0x601010 = Inr (PInt 0x601000)"
    by (simp_all add: examine_data_def cycle_session_fields)
  show "examine_mem_value cycle_session (Some 0x601000) = Inr (PStr ''0x601000'', PStr ''data'', PInt 0x601008)"
    by (simp add: examine_mem_value_def is_address_def is_writable_def r d cycle_session_fields
        cycle_session_hex)
  show "examine_mem_value cycle_session (Some 0x601008) = Inr (PStr ''0x601008'', PStr ''data'', PInt 0x601010)"
    by (simp add: examine_mem_value_def is_address_def is_writable_def r d cycle_session_fields
        cycle_session_hex)
  show "examine_mem_value cycle_session (Some 0x601010) = Inr (PStr ''0x601010'', PStr ''data'', PInt 0x601000)"
    by (simp add: examine_mem_value_def is_address_def is_writable_def r d cycle_session_fields
        cycle_session_hex)
qed

lemma self_session_fields:
  "get_vmmap self_session None = Some [(0x601000, 0x602000, ''rw-p'', ''/bin/prog'')]"
  "get_vmmap self_session (Some ''heap'') = Some []"
  "read_int self_session 0x601000 n = Some 0x601000"
  "is_printable self_session x n = False"
  "to_hex self_session = hex_fmt"
  "to_int self_session = hex_to_int"
  by (simp_all add: self_session_def null_session_def)

lemma self_session_value:
  "examine_mem_value self_session (Some 0x601000) = Inr (PStr ''0x601000'', PStr ''data'', PInt 0x601000)"
proof -
  have r: "get_vmrange self_session 0x601000 None = Some (0x601000, 0x602000, ''rw-p'', ''/bin/prog'')"
    by (simp add: get_vmrange_def self_session_fields truthy_list_def)
  have d: "examine_data self_session 0x601000 = Inr (PInt 0x601000)"
    by (simp add: examine_data_def self_session_fields)
  show ?thesis
    by (simp add: examine_mem_value_def is_address_def is_writable_def r d self_session_fields
        cycle_session_hex)
qed

text \<open>
  Witness for C6: a cycle of three addresses walked with depth 1, where the bound is hit,
  and a word that points to itself.
\<close>

theorem cyclic_chain_bounded_witness:
  "[0x601000, 0x601008, 0x601010 :: int] \<noteq> [] \<and>
   distinct [0x601000, 0x601008, 0x601010 :: int] \<and>
   examine_mem_value cycle_session (Some 0x601000) = Inr (PStr ''0x601000'', PStr ''data'', PInt 0x601008) \<and>
   examine_mem_value cycle_session (Some 0x601008) = Inr (PStr ''0x601008'', PStr ''data'', PInt 0x601010) \<and>
   examine_mem_value cycle_session (Some 0x601010) = Inr (PStr ''0x601010'', PStr ''data'', PInt 0x601000) \<and>
   to_int cycle_session (PInt 0x601008) = Some 0x601008 \<and>
   to_int cycle_session (PInt 0x601010) = Some 0x601010 \<and>
   to_int cycle_session (PInt 0x601000) = Some 0x601000 \<and>
   to_int cycle_session (PStr (to_hex cycle_session 0x601000)) = Some 0x601000 \<and>
   to_int cycle_session (PStr (to_hex cycle_session 0x601008)) = Some 0x601008 \<and>
   to_int cycle_session (PStr (to_hex cycle_session 0x601010)) = Some 0x601010 \<and>
   (\<exists>chain. examine_mem_reference cycle_session (Some 0x601000) 1 = Inr chain \<and>
      length chain \<le> 3 \<and> int (length chain) = 2 \<and> snd (snd (last chain)) = PStr ''--> ...'') \<and>
   examine_mem_value self_session (Some 0x601000) = Inr (PStr ''0x601000'', PStr ''data'', PInt 0x601000) \<and>
   to_int self_session (PStr (to_hex self_session 0x601000)) = Some 0x601000 \<and>
   (\<exists>chain. examine_mem_reference self_session (Some 0x601000) 5 = Inr chain \<and> length chain = 1)"
proof -
  have self: "\<exists>chain. examine_mem_reference self_session (Some 0x601000) 5 = Inr chain \<and> length chain = 1"
  proof -
    have n: "[0x601000 :: int] \<noteq> []"
      by simp
    have c: "\<forall>i<length [0x601000 :: int]. \<exists>v t vn.
               examine_mem_value self_session (Some ([0x601000] ! i)) = Inr (v, t, vn) \<and>
               vn \<noteq> PNone \<and>
               to_int self_session vn = Some ([0x601000] ! (Suc i mod length [0x601000 :: int]))"
      by (simp add: self_session_value self_session_fields cycle_session_hex)
    have r: "\<forall>a\<in>set [0x601000 :: int]. to_int self_session (PStr (to_hex self_session a)) = Some a"
      by (simp add: self_session_fields cycle_session_hex)
    from cyclic_chain_bounded [OF n c r, of 5] obtain chain where
      x: "examine_mem_reference self_session (Some ([0x601000] ! 0)) 5 = Inr chain"
        "length [0x601000 :: int] = 1 \<longrightarrow> length chain = 1"
      by blast
    then have "examine_mem_reference self_session (Some 0x601000) 5 = Inr chain \<and> length chain = 1"
      by simp
    then show ?thesis by blast
  qed
  have c: "\<forall>i<length [0x601000, 0x601008, 0x601010 :: int]. \<exists>v t vn.
             examine_mem_value cycle_session (Some ([0x601000, 0x601008, 0x601010] ! i)) = Inr (v, t, vn) \<and>
             vn \<noteq> PNone \<and>
             to_int cycle_session vn =
               Some ([0x601000, 0x601008, 0x601010] ! (Suc i mod length [0x601000, 0x601008, 0x601010 :: int]))"
  proof (intro allI impI)
    fix i
    assume "i < length [0x601000, 0x601008, 0x601010 :: int]"
    then have "i = 0 \<or> i = 1 \<or> i = 2"
      by auto
    then show "\<exists>v t vn.
             examine_mem_value cycle_session (Some ([0x601000, 0x601008, 0x601010] ! i)) = Inr (v, t, vn) \<and>
             vn \<noteq> PNone \<and>
             to_int cycle_session vn =
               Some ([0x601000, 0x601008, 0x601010] ! (Suc i mod length [0x601000, 0x601008, 0x601010 :: int]))"
      by (elim disjE) (simp_all add: cycle_session_values cycle_session_fields cycle_session_hex)
  qed
  have r: "\<forall>a\<in>set [0x601000, 0x601008, 0x601010 :: int].
             to_int cycle_session (PStr (to_hex cycle_session a)) = Some a"
    by (simp add: cycle_session_fields cycle_session_hex)
  have n: "[0x601000, 0x601008, 0x601010 :: int] \<noteq> []"
    by simp
  have l: "int (length [0x601000, 0x601008, 0x601010 :: int]) = 3"
    "length [0x601000, 0x601008, 0x601010 :: int] = 3"
    by simp_all
  have dd: "distinct [0x601000, 0x601008, 0x601010 :: int]"
    by simp
  from cyclic_chain_bounded [OF n c r, of 1] obtain chain where
    x: "examine_mem_reference cycle_session (Some ([0x601000, 0x601008, 0x601010] ! 0)) 1 = Inr chain"
      "length chain \<le> length [0x601000, 0x601008, 0x601010 :: int]"
      "distinct [0x601000, 0x601008, 0x601010 :: int] \<and>
         (if (1 :: int) \<le> 0 then 0xffffffff else 1) + 1 < int (length [0x601000, 0x601008, 0x601010 :: int]) \<longrightarrow>
       int (length chain) = (if (1 :: int) \<le> 0 then 0xffffffff else 1) + 1 \<and>
       snd (snd (last chain)) = PStr ''--> ...''"
    by blast
  from x(3) dd have "int (length chain) = 2 \<and> snd (snd (last chain)) = PStr ''--> ...''"
    unfolding l by simp
  moreover from x(2) have "length chain \<le> 3"
    unfolding l .
  moreover from x(1) have "examine_mem_reference cycle_session (Some 0x601000) 1 = Inr chain"
    by simp
  ultimately have "\<exists>chain. examine_mem_reference cycle_session (Some 0x601000) 1 = Inr chain \<and>
      length chain \<le> 3 \<and> int (length chain) = 2 \<and> snd (snd (last chain)) = PStr ''--> ...''"
    by blast
  with n dd self show ?thesis
    by (simp add: cycle_session_values cycle_session_fields cycle_session_hex
        self_session_value self_session_fields)
qed

end
